theory Spec2Isabelle
  imports Main
begin

section \<open>Storage values, rows and the store\<close>

text \<open>
  The program keeps its three tables in an SQLite file and talks to it through Python's
  \<^verbatim>\<open>sqlite3\<close> module. A cell holds NULL, an integer or a text. A \<open>char\<close> of a text is one
  code point below 256; the texts the program itself writes for its list fields are pure
  ASCII. The identifiers of stored rows are mathematical integers: that SQLite hands out
  no rowid beyond the largest 64-bit integer is not part of the model. The integers a
  caller passes are held against the 64-bit range when they are bound to a statement.

  A row is stored under its rowid; the column declared \<^verbatim>\<open>INTEGER PRIMARY KEY\<close> is an
  alias of the rowid, the other columns are the cells. A table is the list of its rows in
  insertion order. \<open>sqlite_sequence\<close> is SQLite's table of that name: for each table with
  an \<^verbatim>\<open>AUTOINCREMENT\<close> key, the largest rowid ever handed out.
\<close>

datatype sqlval = Null | Integer int | Text string

record row =
  rowid :: int
  cells :: "string \<Rightarrow> sqlval"

record database =
  rows :: "string \<Rightarrow> row list"
  sqlite_sequence :: "string \<Rightarrow> int"

section \<open>The schema of \<^verbatim>\<open>Database._create_tables\<close>\<close>

datatype coltype = INTEGER | TEXT

datatype column_constraint =
  PRIMARY_KEY_AUTOINCREMENT | UNIQUE | NOT_NULL | CHECK_IN "string list"

datatype column =
  Column (col_name: string) (col_type: coltype) (col_constraints: "column_constraint list")

datatype fk_action = NO_ACTION | CASCADE

datatype foreign_key =
  FOREIGN_KEY (fk_column: string) (fk_table: string) (fk_parent_column: string)
    (fk_on_delete: fk_action)

datatype table =
  CREATE_TABLE (tbl_name: string) (tbl_columns: "column list")
    (tbl_foreign_keys: "foreign_key list")

text \<open>The script run by \<^verbatim>\<open>_create_tables\<close>, statement by statement.\<close>

definition create_tables :: "table list" where
  "create_tables =
     [CREATE_TABLE ''channels''
        [Column ''id'' INTEGER [PRIMARY_KEY_AUTOINCREMENT],
         Column ''name'' TEXT [UNIQUE, NOT_NULL],
         Column ''url'' TEXT [UNIQUE, NOT_NULL],
         Column ''post_times'' TEXT [],
         Column ''forbidden_words'' TEXT []]
        [],
      CREATE_TABLE ''sources''
        [Column ''id'' INTEGER [PRIMARY_KEY_AUTOINCREMENT],
         Column ''channel_id'' INTEGER [NOT_NULL],
         Column ''source_url'' TEXT [NOT_NULL],
         Column ''parse_media'' INTEGER [NOT_NULL],
         Column ''forbidden_words'' TEXT []]
        [FOREIGN_KEY ''channel_id'' ''channels'' ''id'' CASCADE],
      CREATE_TABLE ''sites''
        [Column ''id'' INTEGER [PRIMARY_KEY_AUTOINCREMENT],
         Column ''channel_id'' INTEGER [NOT_NULL],
         Column ''site_url'' TEXT [NOT_NULL],
         Column ''site_type'' TEXT [CHECK_IN [''AUTO'', ''RENT'', ''BUY'', ''FREE''], NOT_NULL]]
        [FOREIGN_KEY ''channel_id'' ''sources'' ''id'' CASCADE]]"

text \<open>\<^verbatim>\<open>TableFrame._columns_map\<close>: the column headings the front end shows per table.\<close>

definition columns_map :: "string \<Rightarrow> string list option" where
  "columns_map name =
     map_of
       [(''channels'', [''id'', ''name'', ''url'', ''post_times'', ''forbidden_words'']),
        (''sources'', [''id'', ''channel_id'', ''source_url'', ''parse_media'', ''forbidden_words'']),
        (''sites'', [''id'', ''channel_id'', ''site_url'', ''site_type''])]
       name"

section \<open>The statements the program executes\<close>

text \<open>
  Errors are the exceptions a call of \<^verbatim>\<open>cursor.execute\<close> ends with. Every constraint
  failure is an \<^verbatim>\<open>IntegrityError\<close>; the constructor argument records which constraint
  SQLite names in the message.

  An \<^verbatim>\<open>int\<close> of Python is unbounded, an INTEGER of SQLite is a signed 64-bit number.
  \<^verbatim>\<open>sqlite3\<close> converts each parameter when it binds it, after the statement is compiled
  and before it runs, and the conversion of an \<^verbatim>\<open>int\<close> outside the 64-bit range fails
  with \<^verbatim>\<open>OverflowError\<close>: the statement is never run. The model names the exception by
  this cause. (When the statement before it on the connection failed and the statement
  itself is reused, \<^verbatim>\<open>sqlite3\<close> raises the error of that earlier failure once more, with
  the \<^verbatim>\<open>OverflowError\<close> attached to it as its context.)
\<close>

datatype violated = NotNull | Check | Unique | ForeignKey

datatype error =
  IntegrityError violated | OperationalError string | ProgrammingError string | OverflowError

definition int64 :: "int \<Rightarrow> bool" where
  "int64 i = (- (2 ^ 63) \<le> i \<and> i < 2 ^ 63)"

fun bindable :: "sqlval \<Rightarrow> bool" where
  "bindable (Integer i) = int64 i"
| "bindable _ = True"

definition find_table :: "table list \<Rightarrow> string \<Rightarrow> table option" where
  "find_table sch t = find (\<lambda>T. tbl_name T = t) sch"

definition column_names :: "table \<Rightarrow> string list" where
  "column_names T = map col_name (tbl_columns T)"

definition is_rowid_alias :: "table \<Rightarrow> string \<Rightarrow> bool" where
  "is_rowid_alias T c =
     (\<exists>d\<in>set (tbl_columns T). col_name d = c \<and> PRIMARY_KEY_AUTOINCREMENT \<in> set (col_constraints d))"

definition column_value :: "table \<Rightarrow> row \<Rightarrow> string \<Rightarrow> sqlval" where
  "column_value T r c = (if is_rowid_alias T c then Integer (rowid r) else cells r c)"

fun assign :: "string list \<Rightarrow> sqlval list \<Rightarrow> (string \<Rightarrow> sqlval) \<Rightarrow> (string \<Rightarrow> sqlval)" where
  "assign (c # cs) (v # vs) f = assign cs vs (f(c := v))"
| "assign _ _ f = f"

text \<open>
  The constraint checks, in the order SQLite runs them for one row: NOT NULL, CHECK,
  UNIQUE, and the foreign keys of the row as a child. On an UPDATE only the constraints of
  the assigned columns \<open>cols\<close> are looked at.
\<close>

definition violates_not_null :: "table \<Rightarrow> string list \<Rightarrow> (string \<Rightarrow> sqlval) \<Rightarrow> bool" where
  "violates_not_null T cols f =
     (\<exists>d\<in>set (tbl_columns T).
        col_name d \<in> set cols \<and> NOT_NULL \<in> set (col_constraints d) \<and> f (col_name d) = Null)"

fun fails_check :: "column_constraint \<Rightarrow> sqlval \<Rightarrow> bool" where
  "fails_check (CHECK_IN allowed) (Text s) = (s \<notin> set allowed)"
| "fails_check (CHECK_IN allowed) (Integer i) = True"
| "fails_check _ _ = False"

definition violates_check :: "table \<Rightarrow> string list \<Rightarrow> (string \<Rightarrow> sqlval) \<Rightarrow> bool" where
  "violates_check T cols f =
     (\<exists>d\<in>set (tbl_columns T).
        col_name d \<in> set cols \<and> (\<exists>k\<in>set (col_constraints d). fails_check k (f (col_name d))))"

definition violates_unique ::
  "table \<Rightarrow> string list \<Rightarrow> (string \<Rightarrow> sqlval) \<Rightarrow> row list \<Rightarrow> bool" where
  "violates_unique T cols f others =
     (\<exists>d\<in>set (tbl_columns T).
        col_name d \<in> set cols \<and> UNIQUE \<in> set (col_constraints d) \<and> f (col_name d) \<noteq> Null \<and>
        (\<exists>r\<in>set others. cells r (col_name d) = f (col_name d)))"

definition parent_exists :: "table list \<Rightarrow> database \<Rightarrow> foreign_key \<Rightarrow> sqlval \<Rightarrow> bool" where
  "parent_exists sch db k v =
     (case find_table sch (fk_table k) of
        None \<Rightarrow> False
      | Some P \<Rightarrow> \<exists>p\<in>set (rows db (fk_table k)). column_value P p (fk_parent_column k) = v)"

definition violates_foreign_key ::
  "table list \<Rightarrow> table \<Rightarrow> string list \<Rightarrow> (string \<Rightarrow> sqlval) \<Rightarrow> database \<Rightarrow> bool" where
  "violates_foreign_key sch T cols f db =
     (\<exists>k\<in>set (tbl_foreign_keys T).
        fk_column k \<in> set cols \<and> f (fk_column k) \<noteq> Null \<and> \<not> parent_exists sch db k (f (fk_column k)))"

text \<open>
  The rowid of an \<^verbatim>\<open>AUTOINCREMENT\<close> table: one more than the largest rowid in the table
  (1 in an empty table), and more than the largest rowid ever handed out.
\<close>

definition next_rowid :: "database \<Rightarrow> string \<Rightarrow> int" where
  "next_rowid db t =
     max (if rows db t = [] then 1 else Max (rowid ` set (rows db t)) + 1)
         (sqlite_sequence db t + 1)"

text \<open>
  \<^verbatim>\<open>INSERT INTO t(cols) VALUES (?,...)\<close> with the parameters \<open>params\<close>: the statement
  is compiled, the parameters are counted and bound, and the statement runs. The statements
  of the program never name the primary key, so the rowid is always generated; a statement
  that names it is reported as outside the modelled subset. A failed statement changes
  nothing, the sequence included.
\<close>

definition insert_into ::
  "bool \<Rightarrow> table list \<Rightarrow> string \<Rightarrow> string list \<Rightarrow> sqlval list \<Rightarrow> database \<Rightarrow> error + database" where
  "insert_into fk_on sch t cols params db =
     (case find_table sch t of
        None \<Rightarrow> Inl (OperationalError ''no such table'')
      | Some T \<Rightarrow>
          if \<not> set cols \<subseteq> set (column_names T) then Inl (OperationalError ''no such column'')
          else if \<exists>c\<in>set cols. is_rowid_alias T c then Inl (OperationalError ''not modelled'')
          else if length params \<noteq> length cols
            then Inl (ProgrammingError ''Incorrect number of bindings supplied'')
          else if \<exists>v\<in>set params. \<not> bindable v then Inl OverflowError
          else
            let f = assign cols params (\<lambda>_. Null);
                new = \<lparr>rowid = next_rowid db t, cells = f\<rparr>
            in if violates_not_null T (column_names T) f then Inl (IntegrityError NotNull)
               else if violates_check T (column_names T) f then Inl (IntegrityError Check)
               else if violates_unique T (column_names T) f (rows db t)
                 then Inl (IntegrityError Unique)
               else if fk_on \<and> violates_foreign_key sch T (column_names T) f db
                 then Inl (IntegrityError ForeignKey)
               else Inr (db\<lparr>rows := (rows db)(t := rows db t @ [new]),
                            sqlite_sequence := (sqlite_sequence db)(t := rowid new)\<rparr>))"

text \<open>
  \<^verbatim>\<open>UPDATE t SET cols = ?,... WHERE wcol = ?\<close>: the last parameter is the one of the WHERE
  clause. A row is hit when its \<open>wcol\<close> equals the parameter (NULL equals nothing). With
  no row hit nothing is checked and nothing changes.
\<close>

definition update_set_where ::
  "bool \<Rightarrow> table list \<Rightarrow> string \<Rightarrow> string list \<Rightarrow> string \<Rightarrow> sqlval list \<Rightarrow> database
     \<Rightarrow> error + database" where
  "update_set_where fk_on sch t cols wcol params db =
     (case find_table sch t of
        None \<Rightarrow> Inl (OperationalError ''no such table'')
      | Some T \<Rightarrow>
          if \<not> set (wcol # cols) \<subseteq> set (column_names T) then Inl (OperationalError ''no such column'')
          else if \<exists>c\<in>set cols. is_rowid_alias T c then Inl (OperationalError ''not modelled'')
          else if length params \<noteq> length cols + 1
            then Inl (ProgrammingError ''Incorrect number of bindings supplied'')
          else if \<exists>v\<in>set params. \<not> bindable v then Inl OverflowError
          else
            let w = last params;
                hit = (\<lambda>r. w \<noteq> Null \<and> column_value T r wcol = w);
                upd = (\<lambda>r. r\<lparr>cells := assign cols (butlast params) (cells r)\<rparr>);
                targets = filter hit (rows db t)
            in if \<exists>r\<in>set targets. violates_not_null T cols (cells (upd r))
                 then Inl (IntegrityError NotNull)
               else if \<exists>r\<in>set targets. violates_check T cols (cells (upd r))
                 then Inl (IntegrityError Check)
               else if \<exists>r\<in>set targets.
                         violates_unique T cols (cells (upd r))
                           (filter (\<lambda>other. rowid other \<noteq> rowid r) (rows db t))
                 then Inl (IntegrityError Unique)
               else if fk_on \<and> (\<exists>r\<in>set targets. violates_foreign_key sch T cols (cells (upd r)) db)
                 then Inl (IntegrityError ForeignKey)
               else Inr (db\<lparr>rows := (rows db)(t := map (\<lambda>r. if hit r then upd r else r) (rows db t))\<rparr>))"

text \<open>
  Deleting rows. With foreign keys enforced, every foreign key that names \<open>t\<close> as its
  parent acts on the children of the deleted rows: \<^verbatim>\<open>ON DELETE CASCADE\<close> deletes them in
  turn, otherwise their existence fails the statement. SQLite runs these actions as nested
  triggers and gives up beyond \<open>SQLITE_MAX_TRIGGER_DEPTH\<close> levels; \<open>depth\<close> counts the
  levels that are left.
\<close>

definition references :: "table list \<Rightarrow> string \<Rightarrow> (table \<times> foreign_key) list" where
  "references sch t =
     concat (map (\<lambda>C. map (\<lambda>k. (C, k)) (filter (\<lambda>k. fk_table k = t) (tbl_foreign_keys C))) sch)"

definition SQLITE_MAX_TRIGGER_DEPTH :: nat where
  "SQLITE_MAX_TRIGGER_DEPTH = 1000"

fun delete_rows ::
  "nat \<Rightarrow> bool \<Rightarrow> table list \<Rightarrow> string \<Rightarrow> (row \<Rightarrow> bool) \<Rightarrow> database \<Rightarrow> error + database" where
  "delete_rows 0 fk_on sch t hit db =
     Inl (OperationalError ''too many levels of trigger recursion'')"
| "delete_rows (Suc depth) fk_on sch t hit db =
     (case find_table sch t of
        None \<Rightarrow> Inl (OperationalError ''no such table'')
      | Some T \<Rightarrow>
          let victims = filter hit (rows db t);
              db1 = db\<lparr>rows := (rows db)(t := filter (\<lambda>r. \<not> hit r) (rows db t))\<rparr>
          in if \<not> fk_on then Inr db1
             else
               fold (\<lambda>(C, k) acc.
                       case acc of
                         Inl e \<Rightarrow> Inl e
                       | Inr d \<Rightarrow>
                           let child = (\<lambda>r. column_value C r (fk_column k) \<noteq> Null \<and>
                                  column_value C r (fk_column k)
                                    \<in> set (map (\<lambda>v. column_value T v (fk_parent_column k)) victims))
                           in (case fk_on_delete k of
                                 CASCADE \<Rightarrow> delete_rows depth fk_on sch (tbl_name C) child d
                               | NO_ACTION \<Rightarrow>
                                   if \<exists>r\<in>set (rows d (tbl_name C)). child r
                                   then Inl (IntegrityError ForeignKey) else Inr d))
                    (references sch t) (Inr db1))"

definition delete_from_where ::
  "bool \<Rightarrow> table list \<Rightarrow> string \<Rightarrow> string \<Rightarrow> sqlval list \<Rightarrow> database \<Rightarrow> error + database" where
  "delete_from_where fk_on sch t wcol params db =
     (case find_table sch t of
        None \<Rightarrow> Inl (OperationalError ''no such table'')
      | Some T \<Rightarrow>
          if wcol \<notin> set (column_names T) then Inl (OperationalError ''no such column'')
          else if length params \<noteq> 1
            then Inl (ProgrammingError ''Incorrect number of bindings supplied'')
          else if \<exists>v\<in>set params. \<not> bindable v then Inl OverflowError
          else
            delete_rows (Suc SQLITE_MAX_TRIGGER_DEPTH) fk_on sch t
              (\<lambda>r. hd params \<noteq> Null \<and> column_value T r wcol = hd params) db)"

text \<open>\<^verbatim>\<open>SELECT * FROM t\<close>: every row, as the tuple of its columns in declaration order.\<close>

definition select_all_from ::
  "table list \<Rightarrow> string \<Rightarrow> sqlval list \<Rightarrow> database \<Rightarrow> error + sqlval list list" where
  "select_all_from sch t params db =
     (case find_table sch t of
        None \<Rightarrow> Inl (OperationalError ''no such table'')
      | Some T \<Rightarrow>
          if params \<noteq> [] then Inl (ProgrammingError ''Incorrect number of bindings supplied'')
          else Inr (map (\<lambda>r. map (column_value T r) (column_names T)) (rows db t)))"

datatype query =
  INSERT_INTO string "string list"
| UPDATE_SET_WHERE string "string list" string
| DELETE_FROM_WHERE string string
| SELECT_ALL_FROM string

text \<open>
  \<^verbatim>\<open>cursor.execute(query, params)\<close> followed by \<^verbatim>\<open>cursor.fetchall()\<close>: the fetched rows
  (none for a statement that is not a SELECT) and the store afterwards.
\<close>

fun cursor_execute ::
  "bool \<Rightarrow> table list \<Rightarrow> query \<Rightarrow> sqlval list \<Rightarrow> database \<Rightarrow> error + (sqlval list list \<times> database)" where
  "cursor_execute fk_on sch (INSERT_INTO t cols) params db =
     map_sum id (Pair []) (insert_into fk_on sch t cols params db)"
| "cursor_execute fk_on sch (UPDATE_SET_WHERE t cols wcol) params db =
     map_sum id (Pair []) (update_set_where fk_on sch t cols wcol params db)"
| "cursor_execute fk_on sch (DELETE_FROM_WHERE t wcol) params db =
     map_sum id (Pair []) (delete_from_where fk_on sch t wcol params db)"
| "cursor_execute fk_on sch (SELECT_ALL_FROM t) params db =
     map_sum id (\<lambda>fetched. (fetched, db)) (select_all_from sch t params db)"

section \<open>\<^verbatim>\<open>json.dumps\<close> on a list of strings\<close>

text \<open>
  A Python string is a sequence of code points. \<^verbatim>\<open>json.dumps\<close> (with its default
  \<^verbatim>\<open>ensure_ascii\<close>) writes a list of strings as \<^verbatim>\<open>[\<close>, the quoted strings separated by
  a comma and a space, and \<^verbatim>\<open>]\<close>. Inside the quotes only the printable ASCII characters
  other than the quote and the backslash stand for themselves; the others are escaped,
  a code point beyond the basic plane as a pair of surrogate escapes.
\<close>

type_synonym pystr = "nat list"

definition hexdigit :: "nat \<Rightarrow> char" where
  "hexdigit d = ''0123456789abcdef'' ! d"

definition u_escape :: "nat \<Rightarrow> string" where
  "u_escape n =
     [CHR 0x5C, CHR ''u'', hexdigit (n div 4096 mod 16), hexdigit (n div 256 mod 16),
      hexdigit (n div 16 mod 16), hexdigit (n mod 16)]"

definition escape_char :: "nat \<Rightarrow> string" where
  "escape_char c =
     (if c = 0x5C then [CHR 0x5C, CHR 0x5C]
      else if c = 0x22 then [CHR 0x5C, CHR 0x22]
      else if c = 0x08 then [CHR 0x5C, CHR ''b'']
      else if c = 0x0C then [CHR 0x5C, CHR ''f'']
      else if c = 0x0A then [CHR 0x5C, CHR ''n'']
      else if c = 0x0D then [CHR 0x5C, CHR ''r'']
      else if c = 0x09 then [CHR 0x5C, CHR ''t'']
      else if 0x20 \<le> c \<and> c \<le> 0x7E then [char_of c]
      else if c < 0x10000 then u_escape c
      else u_escape (0xD800 + (c - 0x10000) div 0x400 mod 0x400)
             @ u_escape (0xDC00 + (c - 0x10000) mod 0x400))"

definition encode_basestring_ascii :: "pystr \<Rightarrow> string" where
  "encode_basestring_ascii s = CHR 0x22 # concat (map escape_char s) @ [CHR 0x22]"

fun join :: "string \<Rightarrow> string list \<Rightarrow> string" where
  "join sep [] = []"
| "join sep [x] = x"
| "join sep (x # y # ys) = x @ sep @ join sep (y # ys)"

definition json_dumps :: "pystr list \<Rightarrow> string" where
  "json_dumps l = ''['' @ join '', '' (map encode_basestring_ascii l) @ '']''"

section \<open>The \<^verbatim>\<open>Database\<close> class\<close>

text \<open>
  What a method hands back is a Python value: \<^verbatim>\<open>None\<close>, or the list of tuples of
  \<^verbatim>\<open>fetchall\<close>. A method is a function from the store to its outcome (the value
  returned or the exception raised) and the store afterwards; SQLite undoes a statement
  that fails, so an exception leaves the store as it was.
\<close>

datatype pyval = PyNone | PyInt int | PyStr string | PyTuple "pyval list" | PyList "pyval list"

fun to_python :: "sqlval \<Rightarrow> pyval" where
  "to_python Null = PyNone"
| "to_python (Integer i) = PyInt i"
| "to_python (Text s) = PyStr s"

text \<open>
  \<^verbatim>\<open>__init__\<close> connects, switches the enforcement of foreign keys on for the connection
  and creates the tables; on a path that holds no file yet the store starts empty.
\<close>

definition foreign_keys :: bool where
  "foreign_keys = True"

definition Database_init :: database where
  "Database_init = \<lparr>rows = (\<lambda>t. []), sqlite_sequence = (\<lambda>t. 0)\<rparr>"

definition execute ::
  "query \<Rightarrow> sqlval list \<Rightarrow> bool \<Rightarrow> database \<Rightarrow> (error + pyval) \<times> database" where
  "execute query params fetch db =
     (case cursor_execute foreign_keys create_tables query params db of
        Inl e \<Rightarrow> (Inl e, db)
      | Inr (fetched, db') \<Rightarrow>
          if fetch then (Inr (PyList (map (\<lambda>r. PyTuple (map to_python r)) fetched)), db')
          else (Inr PyNone, db'))"

text \<open>
  The methods that change the store call \<^verbatim>\<open>_execute\<close> and have no \<^verbatim>\<open>return\<close>
  statement of their own: whatever \<^verbatim>\<open>_execute\<close> returned is dropped and the caller gets
  \<^verbatim>\<open>None\<close>.
\<close>

fun no_return :: "(error + pyval) \<times> database \<Rightarrow> (error + pyval) \<times> database" where
  "no_return (Inl e, db) = (Inl e, db)"
| "no_return (Inr v, db) = (Inr PyNone, db)"

definition list_channels :: "database \<Rightarrow> (error + pyval) \<times> database" where
  "list_channels db = execute (SELECT_ALL_FROM ''channels'') [] True db"

definition create_channel ::
  "string \<Rightarrow> string \<Rightarrow> pystr list \<Rightarrow> pystr list \<Rightarrow> database \<Rightarrow> (error + pyval) \<times> database" where
  "create_channel name url post_times forbidden_words db =
     no_return
       (execute (INSERT_INTO ''channels'' [''name'', ''url'', ''post_times'', ''forbidden_words''])
          [Text name, Text url, Text (json_dumps post_times), Text (json_dumps forbidden_words)]
          False db)"

definition update_channel ::
  "int \<Rightarrow> string \<Rightarrow> string \<Rightarrow> pystr list \<Rightarrow> pystr list \<Rightarrow> database
     \<Rightarrow> (error + pyval) \<times> database" where
  "update_channel cid name url post_times forbidden_words db =
     no_return
       (execute
          (UPDATE_SET_WHERE ''channels'' [''name'', ''url'', ''post_times'', ''forbidden_words''] ''id'')
          [Text name, Text url, Text (json_dumps post_times), Text (json_dumps forbidden_words),
           Integer cid]
          False db)"

definition delete_channel :: "int \<Rightarrow> database \<Rightarrow> (error + pyval) \<times> database" where
  "delete_channel cid db =
     no_return (execute (DELETE_FROM_WHERE ''channels'' ''id'') [Integer cid] False db)"

definition list_sources :: "database \<Rightarrow> (error + pyval) \<times> database" where
  "list_sources db = execute (SELECT_ALL_FROM ''sources'') [] True db"

definition create_source ::
  "int \<Rightarrow> string \<Rightarrow> bool \<Rightarrow> pystr list \<Rightarrow> database \<Rightarrow> (error + pyval) \<times> database" where
  "create_source channel_id url parse_media forbidden_words db =
     no_return
       (execute
          (INSERT_INTO ''sources'' [''channel_id'', ''source_url'', ''parse_media'', ''forbidden_words''])
          [Integer channel_id, Text url, Integer (of_bool parse_media),
           Text (json_dumps forbidden_words)]
          False db)"

definition update_source ::
  "int \<Rightarrow> int \<Rightarrow> string \<Rightarrow> bool \<Rightarrow> pystr list \<Rightarrow> database \<Rightarrow> (error + pyval) \<times> database" where
  "update_source sid channel_id url parse_media forbidden_words db =
     no_return
       (execute
          (UPDATE_SET_WHERE ''sources''
             [''channel_id'', ''source_url'', ''parse_media'', ''forbidden_words''] ''id'')
          [Integer channel_id, Text url, Integer (of_bool parse_media),
           Text (json_dumps forbidden_words), Integer sid]
          False db)"

definition delete_source :: "int \<Rightarrow> database \<Rightarrow> (error + pyval) \<times> database" where
  "delete_source sid db =
     no_return (execute (DELETE_FROM_WHERE ''sources'' ''id'') [Integer sid] False db)"

definition list_sites :: "database \<Rightarrow> (error + pyval) \<times> database" where
  "list_sites db = execute (SELECT_ALL_FROM ''sites'') [] True db"

definition create_site ::
  "int \<Rightarrow> string \<Rightarrow> string \<Rightarrow> database \<Rightarrow> (error + pyval) \<times> database" where
  "create_site source_id site_url site_type db =
     no_return
       (execute (INSERT_INTO ''sites'' [''channel_id'', ''site_url'', ''site_type''])
          [Integer source_id, Text site_url, Text site_type] False db)"

definition update_site ::
  "int \<Rightarrow> int \<Rightarrow> string \<Rightarrow> string \<Rightarrow> database \<Rightarrow> (error + pyval) \<times> database" where
  "update_site tid source_id site_url site_type db =
     no_return
       (execute (UPDATE_SET_WHERE ''sites'' [''channel_id'', ''site_url'', ''site_type''] ''id'')
          [Integer source_id, Text site_url, Text site_type, Integer tid] False db)"

definition delete_site :: "int \<Rightarrow> database \<Rightarrow> (error + pyval) \<times> database" where
  "delete_site tid db =
     no_return (execute (DELETE_FROM_WHERE ''sites'' ''id'') [Integer tid] False db)"

section \<open>\<^verbatim>\<open>json.loads\<close> on the text of a list of strings\<close>

text \<open>
  The front end reads a list field back with \<^verbatim>\<open>json.loads(cell or '[]')\<close>. The decoder
  is modelled on the documents it can turn into a list of strings: \<open>json_loads text\<close> is
  \<open>Some l\<close> when \<^verbatim>\<open>json.loads\<close> returns the list of strings \<open>l\<close>, and \<open>None\<close> when it
  raises or returns anything else. It follows the scanner of CPython: white space is
  skipped around the brackets and the commas; inside a string a backslash starts an escape,
  a control character is refused, and a \<^verbatim>\<open>\u\<close> escape of a high surrogate that is directly
  followed by a \<^verbatim>\<open>\u\<close> escape of a low surrogate is read as the one code point the pair
  stands for.
\<close>

definition hexval :: "char \<Rightarrow> nat option" where
  "hexval c =
     (let n = (of_char c :: nat)
      in if 0x30 \<le> n \<and> n \<le> 0x39 then Some (n - 0x30)
         else if 0x61 \<le> n \<and> n \<le> 0x66 then Some (n - 0x61 + 10)
         else if 0x41 \<le> n \<and> n \<le> 0x46 then Some (n - 0x41 + 10)
         else None)"

fun hex4 :: "string \<Rightarrow> nat option" where
  "hex4 (a # b # c # d # rest) =
     Option.bind (hexval a) (\<lambda>x3.
     Option.bind (hexval b) (\<lambda>x2.
     Option.bind (hexval c) (\<lambda>x1.
     Option.bind (hexval d) (\<lambda>x0. Some (((x3 * 16 + x2) * 16 + x1) * 16 + x0)))))"
| "hex4 _ = None"

definition is_high_surrogate :: "nat \<Rightarrow> bool" where
  "is_high_surrogate n = (0xD800 \<le> n \<and> n \<le> 0xDBFF)"

definition is_low_surrogate :: "nat \<Rightarrow> bool" where
  "is_low_surrogate n = (0xDC00 \<le> n \<and> n \<le> 0xDFFF)"

text \<open>
  One escape, read from the character after the backslash: the code point it stands for
  and the number of characters it takes up after the backslash.
\<close>

definition unescape :: "string \<Rightarrow> (nat \<times> nat) option" where
  "unescape es =
     (case es of
        [] \<Rightarrow> None
      | e # rest \<Rightarrow>
          if e = CHR ''u'' then
            (case hex4 rest of
               None \<Rightarrow> None
             | Some c \<Rightarrow>
                 if is_high_surrogate c \<and> take 2 (drop 4 rest) = [CHR 0x5C, CHR ''u''] then
                   (case hex4 (drop 6 rest) of
                      None \<Rightarrow> None
                    | Some c2 \<Rightarrow>
                        if is_low_surrogate c2
                        then Some (0x10000 + ((c - 0xD800) * 0x400 + (c2 - 0xDC00)), 11)
                        else Some (c, 5))
                 else Some (c, 5))
          else if e = CHR 0x22 then Some (0x22, 1)
          else if e = CHR 0x5C then Some (0x5C, 1)
          else if e = CHR ''/'' then Some (0x2F, 1)
          else if e = CHR ''b'' then Some (0x08, 1)
          else if e = CHR ''f'' then Some (0x0C, 1)
          else if e = CHR ''n'' then Some (0x0A, 1)
          else if e = CHR ''r'' then Some (0x0D, 1)
          else if e = CHR ''t'' then Some (0x09, 1)
          else None)"

text \<open>
  The body of a string, from the character after the opening quote: the decoded string and
  the number of characters read, the closing quote included.
\<close>

fun scanstring :: "string \<Rightarrow> (pystr \<times> nat) option" where
  "scanstring [] = None"
| "scanstring (c # cs) =
     (if c = CHR 0x22 then Some ([], 1)
      else if c = CHR 0x5C then
        (case unescape cs of
           None \<Rightarrow> None
         | Some (n, k) \<Rightarrow> map_option (\<lambda>(s, m). (n # s, 1 + k + m)) (scanstring (drop k cs)))
      else if (of_char c :: nat) \<le> 0x1F then None
      else map_option (\<lambda>(s, m). (of_char c # s, 1 + m)) (scanstring cs))"

definition skip_whitespace :: "string \<Rightarrow> string" where
  "skip_whitespace s = dropWhile (\<lambda>c. c \<in> {CHR '' '', CHR 0x09, CHR 0x0A, CHR 0x0D}) s"

text \<open>
  The elements of a non-empty array, from the first character of an element: the strings
  and what is left of the text after the closing bracket.
\<close>

function parse_array :: "string \<Rightarrow> (pystr list \<times> string) option" where
  "parse_array [] = None"
| "parse_array (q # body) =
     (if q \<noteq> CHR 0x22 then None
      else
        (case scanstring body of
           None \<Rightarrow> None
         | Some (v, n) \<Rightarrow>
             (case skip_whitespace (drop n body) of
                [] \<Rightarrow> None
              | d # rest \<Rightarrow>
                  if d = CHR '']'' then Some ([v], rest)
                  else if d = CHR '','' then
                    map_option (\<lambda>(vs, r). (v # vs, r)) (parse_array (skip_whitespace rest))
                  else None)))"
  by pat_completeness auto
termination
proof (relation "measure length")
  show "wf (measure length)" by simp
next
  fix q :: char and body x2 :: string and x y d rest
  assume "skip_whitespace (drop y body) = d # rest"
  then have "length (d # rest) \<le> length (drop y body)"
    unfolding skip_whitespace_def by (metis length_dropWhile_le)
  moreover have "length (skip_whitespace rest) \<le> length rest"
    unfolding skip_whitespace_def by (rule length_dropWhile_le)
  ultimately show "(skip_whitespace rest, q # body) \<in> measure length" by simp
qed

definition json_loads :: "string \<Rightarrow> pystr list option" where
  "json_loads text =
     (case skip_whitespace text of
        [] \<Rightarrow> None
      | b # after_bracket \<Rightarrow>
          if b \<noteq> CHR ''['' then None
          else
            (case skip_whitespace after_bracket of
               [] \<Rightarrow> None
             | d # rest \<Rightarrow>
                 if d = CHR '']'' then (if skip_whitespace rest = [] then Some [] else None)
                 else
                   (case parse_array (d # rest) of
                      None \<Rightarrow> None
                    | Some (vs, r) \<Rightarrow> if skip_whitespace r = [] then Some vs else None)))"

text \<open>
  \<^verbatim>\<open>json.loads(v or '[]')\<close>, as \<^verbatim>\<open>TableFrame.refresh\<close> applies it to the cell \<open>v\<close> of a
  list field: \<^verbatim>\<open>None\<close>, the empty string and zero are false in Python and are replaced by
  \<^verbatim>\<open>'[]'\<close>; a value that is true and not a string makes \<^verbatim>\<open>json.loads\<close> raise.
\<close>

fun loads_or_empty :: "pyval \<Rightarrow> pystr list option" where
  "loads_or_empty PyNone = json_loads ''[]''"
| "loads_or_empty (PyStr s) = json_loads (if s = [] then ''[]'' else s)"
| "loads_or_empty (PyInt i) = (if i = 0 then json_loads ''[]'' else None)"
| "loads_or_empty (PyTuple vs) = (if vs = [] then json_loads ''[]'' else None)"
| "loads_or_empty (PyList vs) = (if vs = [] then json_loads ''[]'' else None)"

text \<open>A Python string is well formed when each of its code points is one of Unicode.\<close>

definition code_points :: "pystr \<Rightarrow> bool" where
  "code_points s = (\<forall>c\<in>set s. c < 0x110000)"

text \<open>A high surrogate directly followed by a low surrogate, somewhere in the string.\<close>

fun surrogate_pair_in :: "pystr \<Rightarrow> bool" where
  "surrogate_pair_in (a # b # s) =
     ((is_high_surrogate a \<and> is_low_surrogate b) \<or> surrogate_pair_in (b # s))"
| "surrogate_pair_in _ = False"

definition str :: "string \<Rightarrow> pystr" where
  "str s = map of_char s"

section \<open>Sequences of calls\<close>

text \<open>
  The front end drives the store through the methods of \<^verbatim>\<open>Database\<close> only
  (\<^verbatim>\<open>list_fn\<close>, \<^verbatim>\<open>add_fn\<close>, \<^verbatim>\<open>upd_fn\<close>, \<^verbatim>\<open>del_fn\<close> of each tab). A history of the store is a
  list of such calls; a call that raises leaves the store as it was and the next call goes
  on from there.
\<close>

datatype method_call =
  List_channels
| Create_channel string string "pystr list" "pystr list"
| Update_channel int string string "pystr list" "pystr list"
| Delete_channel int
| List_sources
| Create_source int string bool "pystr list"
| Update_source int int string bool "pystr list"
| Delete_source int
| List_sites
| Create_site int string string
| Update_site int int string string
| Delete_site int

fun invoke :: "method_call \<Rightarrow> database \<Rightarrow> (error + pyval) \<times> database" where
  "invoke List_channels db = list_channels db"
| "invoke (Create_channel name url post_times forbidden_words) db =
     create_channel name url post_times forbidden_words db"
| "invoke (Update_channel cid name url post_times forbidden_words) db =
     update_channel cid name url post_times forbidden_words db"
| "invoke (Delete_channel cid) db = delete_channel cid db"
| "invoke List_sources db = list_sources db"
| "invoke (Create_source channel_id url parse_media forbidden_words) db =
     create_source channel_id url parse_media forbidden_words db"
| "invoke (Update_source sid channel_id url parse_media forbidden_words) db =
     update_source sid channel_id url parse_media forbidden_words db"
| "invoke (Delete_source sid) db = delete_source sid db"
| "invoke List_sites db = list_sites db"
| "invoke (Create_site source_id site_url site_type) db = create_site source_id site_url site_type db"
| "invoke (Update_site tid source_id site_url site_type) db =
     update_site tid source_id site_url site_type db"
| "invoke (Delete_site tid) db = delete_site tid db"

fun run :: "method_call list \<Rightarrow> database \<Rightarrow> database" where
  "run [] db = db"
| "run (c # cs) db = run cs (snd (invoke c db))"

text \<open>
  The rowids of a table, and the children that have no parent row; both child tables
  keep the identity of the parent in their column \<open>channel_id\<close>.
\<close>

definition ids :: "database \<Rightarrow> string \<Rightarrow> int list" where
  "ids db t = map rowid (rows db t)"


text \<open>
  The tuple that \<^verbatim>\<open>SELECT *\<close> gives for a row whose columns after \<open>id\<close> are \<open>cols\<close>, and
  the table a call inserts into, if it is one of the three \<open>create\<close> methods.
\<close>

definition tuple_of :: "string list \<Rightarrow> row \<Rightarrow> pyval" where
  "tuple_of cols r = PyTuple (PyInt (rowid r) # map (\<lambda>c. to_python (cells r c)) cols)"

fun creates :: "method_call \<Rightarrow> string option" where
  "creates (Create_channel name url post_times forbidden_words) = Some ''channels''"
| "creates (Create_source channel_id url parse_media forbidden_words) = Some ''sources''"
| "creates (Create_site source_id site_url site_type) = Some ''sites''"
| "creates _ = None"

text \<open>
  The store of the specification's scenarios: one channel, one source under it and one
  site under the source, created in this order on the empty store.
\<close>

definition one_of_each :: database where
  "one_of_each =
     run [Create_channel ''news'' ''https://x'' [str ''09:00'', str ''18:00''] [str ''spam''],
          Create_source 1 ''https://s'' True [],
          Create_site 1 ''https://t'' ''AUTO'']
       Database_init"

section \<open>What each method does to the store\<close>

text \<open>
  Running the statements of the methods against the schema gives each method in closed
  form: the condition under which SQLite refuses the statement, and the store afterwards.
\<close>

lemmas engine_defs =
  execute_def insert_into_def update_set_where_def delete_from_where_def select_all_from_def
  find_table_def create_tables_def column_names_def is_rowid_alias_def column_value_def
  violates_not_null_def violates_check_def violates_unique_def violates_foreign_key_def
  parent_exists_def foreign_keys_def references_def

lemma int64_small [simp]: "int64 0" "int64 1" "int64 (of_bool b)"
  by (simp_all add: int64_def)

lemmas delete_rows_numeral =
  delete_rows.simps(2)[where depth = "pred_numeral k", folded numeral_eq_Suc] for k

lemma Null_or_notin_Integer:
  "(x = Null \<or> x \<notin> (\<lambda>v. Integer (g v)) ` S) \<longleftrightarrow> x \<notin> (\<lambda>v. Integer (g v)) ` S"
  by auto

lemma not_Null_and_in_Integer:
  "(x \<noteq> Null \<and> x \<in> (\<lambda>v. Integer (g v)) ` S) \<longleftrightarrow> x \<in> (\<lambda>v. Integer (g v)) ` S"
  by auto

lemmas delete_simps =
  engine_defs SQLITE_MAX_TRIGGER_DEPTH_def delete_rows_numeral Let_def
  Null_or_notin_Integer not_Null_and_in_Integer

lemma list_channels_eq:
  "list_channels db =
     (Inr (PyList (map (\<lambda>r. PyTuple [PyInt (rowid r), to_python (cells r ''name''),
                          to_python (cells r ''url''), to_python (cells r ''post_times''),
                          to_python (cells r ''forbidden_words'')]) (rows db ''channels''))), db)"
  by (simp add: list_channels_def engine_defs)

lemma list_sources_eq:
  "list_sources db =
     (Inr (PyList (map (\<lambda>r. PyTuple [PyInt (rowid r), to_python (cells r ''channel_id''),
                          to_python (cells r ''source_url''), to_python (cells r ''parse_media''),
                          to_python (cells r ''forbidden_words'')]) (rows db ''sources''))), db)"
  by (simp add: list_sources_def engine_defs)

lemma list_sites_eq:
  "list_sites db =
     (Inr (PyList (map (\<lambda>r. PyTuple [PyInt (rowid r), to_python (cells r ''channel_id''),
                          to_python (cells r ''site_url''), to_python (cells r ''site_type'')])
             (rows db ''sites''))), db)"
  by (simp add: list_sites_def engine_defs)

lemma create_channel_eq:
  "create_channel name url pt fw db =
     (if \<exists>r\<in>set (rows db ''channels''). cells r ''name'' = Text name \<or> cells r ''url'' = Text url
      then (Inl (IntegrityError Unique), db)
      else (Inr PyNone,
            db\<lparr>rows := (rows db)(''channels'' := rows db ''channels'' @
                   [\<lparr>rowid = next_rowid db ''channels'',
                     cells = (\<lambda>_. Null)(''name'' := Text name, ''url'' := Text url,
                       ''post_times'' := Text (json_dumps pt),
                       ''forbidden_words'' := Text (json_dumps fw))\<rparr>]),
               sqlite_sequence := (sqlite_sequence db)(''channels'' := next_rowid db ''channels'')\<rparr>))"
  by (auto simp add: create_channel_def engine_defs Let_def)

lemma create_source_eq:
  "create_source cid url pm fw db =
     (if \<not> int64 cid then (Inl OverflowError, db)
      else if \<not> (\<exists>p\<in>set (rows db ''channels''). rowid p = cid)
      then (Inl (IntegrityError ForeignKey), db)
      else (Inr PyNone,
            db\<lparr>rows := (rows db)(''sources'' := rows db ''sources'' @
                   [\<lparr>rowid = next_rowid db ''sources'',
                     cells = (\<lambda>_. Null)(''channel_id'' := Integer cid, ''source_url'' := Text url,
                       ''parse_media'' := Integer (of_bool pm),
                       ''forbidden_words'' := Text (json_dumps fw))\<rparr>]),
               sqlite_sequence := (sqlite_sequence db)(''sources'' := next_rowid db ''sources'')\<rparr>))"
  by (auto simp add: create_source_def engine_defs Let_def)

lemma create_site_eq:
  "create_site sid url ty db =
     (if \<not> int64 sid then (Inl OverflowError, db)
      else if ty \<notin> {''AUTO'', ''RENT'', ''BUY'', ''FREE''} then (Inl (IntegrityError Check), db)
      else if \<not> (\<exists>p\<in>set (rows db ''sources''). rowid p = sid)
      then (Inl (IntegrityError ForeignKey), db)
      else (Inr PyNone,
            db\<lparr>rows := (rows db)(''sites'' := rows db ''sites'' @
                   [\<lparr>rowid = next_rowid db ''sites'',
                     cells = (\<lambda>_. Null)(''channel_id'' := Integer sid, ''site_url'' := Text url,
                       ''site_type'' := Text ty)\<rparr>]),
               sqlite_sequence := (sqlite_sequence db)(''sites'' := next_rowid db ''sites'')\<rparr>))"
  by (auto simp add: create_site_def engine_defs Let_def)

lemma update_channel_eq:
  "update_channel cid name url pt fw db =
     (if \<not> int64 cid then (Inl OverflowError, db)
      else if (\<exists>r\<in>set (rows db ''channels''). rowid r = cid) \<and>
         (\<exists>other\<in>set (rows db ''channels''). rowid other \<noteq> cid \<and>
            (cells other ''name'' = Text name \<or> cells other ''url'' = Text url))
      then (Inl (IntegrityError Unique), db)
      else (Inr PyNone,
            db\<lparr>rows := (rows db)(''channels'' :=
                   map (\<lambda>r. if rowid r = cid
                            then r\<lparr>cells := (cells r)(''name'' := Text name, ''url'' := Text url,
                                   ''post_times'' := Text (json_dumps pt),
                                   ''forbidden_words'' := Text (json_dumps fw))\<rparr>
                            else r) (rows db ''channels''))\<rparr>))"
  by (auto simp add: update_channel_def engine_defs Let_def)

lemma update_source_eq:
  "update_source sid cid url pm fw db =
     (if \<not> int64 cid \<or> \<not> int64 sid then (Inl OverflowError, db)
      else if (\<exists>r\<in>set (rows db ''sources''). rowid r = sid) \<and>
         \<not> (\<exists>p\<in>set (rows db ''channels''). rowid p = cid)
      then (Inl (IntegrityError ForeignKey), db)
      else (Inr PyNone,
            db\<lparr>rows := (rows db)(''sources'' :=
                   map (\<lambda>r. if rowid r = sid
                            then r\<lparr>cells := (cells r)(''channel_id'' := Integer cid,
                                   ''source_url'' := Text url,
                                   ''parse_media'' := Integer (of_bool pm),
                                   ''forbidden_words'' := Text (json_dumps fw))\<rparr>
                            else r) (rows db ''sources''))\<rparr>))"
  by (auto simp add: update_source_def engine_defs Let_def)

lemma update_site_eq:
  "update_site tid sid url ty db =
     (if \<not> int64 sid \<or> \<not> int64 tid then (Inl OverflowError, db)
      else if (\<exists>r\<in>set (rows db ''sites''). rowid r = tid) \<and> ty \<notin> {''AUTO'', ''RENT'', ''BUY'', ''FREE''}
      then (Inl (IntegrityError Check), db)
      else if (\<exists>r\<in>set (rows db ''sites''). rowid r = tid) \<and>
         \<not> (\<exists>p\<in>set (rows db ''sources''). rowid p = sid)
      then (Inl (IntegrityError ForeignKey), db)
      else (Inr PyNone,
            db\<lparr>rows := (rows db)(''sites'' :=
                   map (\<lambda>r. if rowid r = tid
                            then r\<lparr>cells := (cells r)(''channel_id'' := Integer sid,
                                   ''site_url'' := Text url, ''site_type'' := Text ty)\<rparr>
                            else r) (rows db ''sites''))\<rparr>))"
  by (auto simp add: update_site_def engine_defs Let_def)

lemma delete_site_eq:
  "delete_site tid db =
     (if \<not> int64 tid then (Inl OverflowError, db)
      else (Inr PyNone,
        db\<lparr>rows := (rows db)(''sites'' := filter (\<lambda>r. rowid r \<noteq> tid) (rows db ''sites''))\<rparr>))"
  by (simp add: delete_site_def delete_simps)

lemma delete_source_eq:
  "delete_source sid db =
     (if \<not> int64 sid then (Inl OverflowError, db) else
     (Inr PyNone,
      db\<lparr>rows := (rows db)
         (''sources'' := filter (\<lambda>r. rowid r \<noteq> sid) (rows db ''sources''),
          ''sites'' :=
            filter (\<lambda>t. cells t ''channel_id'' \<notin>
                      (\<lambda>v. Integer (rowid v)) ` {v \<in> set (rows db ''sources''). rowid v = sid})
              (rows db ''sites''))\<rparr>))"
  by (simp add: delete_source_def delete_simps)

lemma delete_channel_eq:
  "delete_channel cid db =
     (if \<not> int64 cid then (Inl OverflowError, db) else
     (Inr PyNone,
      db\<lparr>rows := (rows db)
         (''channels'' := filter (\<lambda>r. rowid r \<noteq> cid) (rows db ''channels''),
          ''sources'' :=
            filter (\<lambda>s. cells s ''channel_id'' \<notin>
                      (\<lambda>v. Integer (rowid v)) ` {v \<in> set (rows db ''channels''). rowid v = cid})
              (rows db ''sources''),
          ''sites'' :=
            filter (\<lambda>t. cells t ''channel_id'' \<notin>
                      (\<lambda>v. Integer (rowid v)) `
                        {s \<in> set (rows db ''sources''). cells s ''channel_id'' \<in>
                           (\<lambda>v. Integer (rowid v)) ` {v \<in> set (rows db ''channels''). rowid v = cid}})
              (rows db ''sites''))\<rparr>))"
  by (simp add: delete_channel_def delete_simps)

lemma absent_iff: "i \<notin> set (ids db t) \<longleftrightarrow> (\<forall>r\<in>set (rows db t). rowid r \<noteq> i)"
  by (auto simp: ids_def)


text \<open>The texts and the rows of the scenario store, evaluated.\<close>


lemma dumps_times: "json_dumps [str ''09:00'', str ''18:00''] = CHR ''['' # CHR 0x22 # ''09:00'' @ CHR 0x22 # '', '' @ CHR 0x22 # ''18:00'' @ [CHR 0x22, CHR '']'']"
  by (simp add: json_dumps_def encode_basestring_ascii_def escape_char_def str_def char_of_def bit_Suc_0_iff)

lemma dumps_spam: "json_dumps [str ''spam''] = CHR ''['' # CHR 0x22 # ''spam'' @ [CHR 0x22, CHR '']'']"
  by (simp add: json_dumps_def encode_basestring_ascii_def escape_char_def str_def char_of_def bit_Suc_0_iff)

lemma dumps_Nil: "json_dumps [] = ''[]''"
  by (simp add: json_dumps_def)

lemma one_of_each_rows:
  "rows one_of_each ''channels'' =
     [\<lparr>rowid = 1, cells = (\<lambda>_. Null)(''name'' := Text ''news'', ''url'' := Text ''https://x'',
          ''post_times'' := Text (json_dumps [str ''09:00'', str ''18:00'']),
          ''forbidden_words'' := Text (json_dumps [str ''spam'']))\<rparr>]"
  "rows one_of_each ''sources'' =
     [\<lparr>rowid = 1, cells = (\<lambda>_. Null)(''channel_id'' := Integer 1, ''source_url'' := Text ''https://s'',
          ''parse_media'' := Integer 1, ''forbidden_words'' := Text (json_dumps []))\<rparr>]"
  "rows one_of_each ''sites'' =
     [\<lparr>rowid = 1, cells = (\<lambda>_. Null)(''channel_id'' := Integer 1, ''site_url'' := Text ''https://t'',
          ''site_type'' := Text ''AUTO'')\<rparr>]"
  by (simp_all add: one_of_each_def create_channel_eq create_source_eq create_site_eq
      Database_init_def next_rowid_def)

lemma one_of_each_sequence:
  "sqlite_sequence one_of_each ''channels'' = 1"
  "sqlite_sequence one_of_each ''sources'' = 1"
  "sqlite_sequence one_of_each ''sites'' = 1"
  by (simp_all add: one_of_each_def create_channel_eq create_source_eq create_site_eq
      Database_init_def next_rowid_def)

lemma one_of_each_ids: "ids one_of_each ''channels'' = [1]" "ids one_of_each ''sources'' = [1]" "ids one_of_each ''sites'' = [1]"
  by (simp_all add: ids_def one_of_each_rows)

lemma one_of_each_next: "next_rowid one_of_each ''channels'' = 2"  "next_rowid one_of_each ''sources'' = 2"  "next_rowid one_of_each ''sites'' = 2"
  by (simp_all add: next_rowid_def one_of_each_rows one_of_each_sequence)


lemma list_tuples:
  "list_channels db =
     (Inr (PyList (map (tuple_of [''name'', ''url'', ''post_times'', ''forbidden_words''])
        (rows db ''channels''))), db)"
  "list_sources db =
     (Inr (PyList (map (tuple_of [''channel_id'', ''source_url'', ''parse_media'', ''forbidden_words''])
        (rows db ''sources''))), db)"
  "list_sites db =
     (Inr (PyList (map (tuple_of [''channel_id'', ''site_url'', ''site_type'']) (rows db ''sites''))), db)"
  by (simp_all add: list_channels_eq list_sources_eq list_sites_eq tuple_of_def)

lemma one_of_each_creates:
  "fst (create_channel ''sport'' ''https://y'' [] [] one_of_each) = Inr PyNone"
  "fst (create_source 1 ''https://s2'' False [] one_of_each) = Inr PyNone"
  "fst (create_site 1 ''https://t2'' ''RENT'' one_of_each) = Inr PyNone"
  by (simp_all add: create_channel_eq create_source_eq create_site_eq one_of_each_rows)

lemma present_iff: "i \<in> set (ids db t) \<longleftrightarrow> (\<exists>r\<in>set (rows db t). rowid r = i)"
  by (auto simp: ids_def)

lemma delete_channel_present:
  assumes "cid \<in> set (ids db ''channels'')" and "int64 cid"
  shows "delete_channel cid db =
     (Inr PyNone,
      db\<lparr>rows := (rows db)
         (''channels'' := filter (\<lambda>r. rowid r \<noteq> cid) (rows db ''channels''),
          ''sources'' := filter (\<lambda>s. cells s ''channel_id'' \<noteq> Integer cid) (rows db ''sources''),
          ''sites'' :=
            filter (\<lambda>t. \<forall>s\<in>set (rows db ''sources'').
                      cells s ''channel_id'' = Integer cid \<longrightarrow> cells t ''channel_id'' \<noteq> Integer (rowid s))
              (rows db ''sites''))\<rparr>)"
proof -
  from assms obtain r where r: "r \<in> set (rows db ''channels'')" "rowid r = cid"
    by (auto simp: present_iff)
  then have e: "(\<lambda>v. Integer (rowid v)) ` {v \<in> set (rows db ''channels''). rowid v = cid} = {Integer cid}"
    by auto
  have f: "\<And>t. (cells t ''channel_id'' \<notin> (\<lambda>v. Integer (rowid v)) `
              {s \<in> set (rows db ''sources''). cells s ''channel_id'' \<in> {Integer cid}})
          \<longleftrightarrow> (\<forall>s\<in>set (rows db ''sources'').
                      cells s ''channel_id'' = Integer cid \<longrightarrow> cells t ''channel_id'' \<noteq> Integer (rowid s))"
    by auto
  from assms(2) show ?thesis unfolding delete_channel_eq e f by simp
qed

section \<open>An identifier that names no row\<close>

text \<open>
  Claim C2, as the code has it. The claim asks \<open>update\<close> and \<open>delete\<close> to fail with
  \<open>NotFound\<close> on an identifier that has no row, leaving the store unchanged. The store is
  indeed unchanged, but no \<open>NotFound\<close> exists: an \<^verbatim>\<open>UPDATE\<close> or \<^verbatim>\<open>DELETE\<close> whose \<^verbatim>\<open>WHERE\<close>
  clause selects no row is a successful statement, and no method looks at the number of
  rows it affected. For each of the three kinds: \<open>update\<close> and \<open>delete\<close> on an identifier
  that is not in the table leave the store exactly as it was; when the integers passed are
  64-bit integers the call raises nothing and returns \<^verbatim>\<open>None\<close>; and the second of two
  deletes of the same identifier returns \<^verbatim>\<open>None\<close> like the first and changes nothing.
\<close>

theorem C2_missing_id_is_silent:
  "(cid \<notin> set (ids db ''channels'') \<longrightarrow>
      snd (update_channel cid name url post_times forbidden_words db) = db \<and>
      snd (delete_channel cid db) = db \<and>
      (int64 cid \<longrightarrow>
         fst (update_channel cid name url post_times forbidden_words db) = Inr PyNone \<and>
         fst (delete_channel cid db) = Inr PyNone)) \<and>
   (sid \<notin> set (ids db ''sources'') \<longrightarrow>
      snd (update_source sid channel_id source_url parse_media words db) = db \<and>
      snd (delete_source sid db) = db \<and>
      (int64 sid \<longrightarrow>
         fst (delete_source sid db) = Inr PyNone \<and>
         (int64 channel_id \<longrightarrow>
            fst (update_source sid channel_id source_url parse_media words db) = Inr PyNone))) \<and>
   (tid \<notin> set (ids db ''sites'') \<longrightarrow>
      snd (update_site tid source_id site_url site_type db) = db \<and>
      snd (delete_site tid db) = db \<and>
      (int64 tid \<longrightarrow>
         fst (delete_site tid db) = Inr PyNone \<and>
         (int64 source_id \<longrightarrow>
            fst (update_site tid source_id site_url site_type db) = Inr PyNone))) \<and>
   (int64 cid \<longrightarrow>
      delete_channel cid (snd (delete_channel cid db))
        = (Inr PyNone, snd (delete_channel cid db))) \<and>
   (int64 sid \<longrightarrow>
      delete_source sid (snd (delete_source sid db))
        = (Inr PyNone, snd (delete_source sid db))) \<and>
   (int64 tid \<longrightarrow>
      delete_site tid (snd (delete_site tid db))
        = (Inr PyNone, snd (delete_site tid db)))"
proof -
  have ch: "snd (update_channel c name url post_times forbidden_words d) = d \<and>
      snd (delete_channel c d) = d \<and>
      (int64 c \<longrightarrow>
         fst (update_channel c name url post_times forbidden_words d) = Inr PyNone \<and>
         fst (delete_channel c d) = Inr PyNone)"
    if "c \<notin> set (ids d ''channels'')" for c d
  proof -
    from that have n: "\<forall>r\<in>set (rows d ''channels''). rowid r \<noteq> c" by (simp add: absent_iff)
    then have e: "{v \<in> set (rows d ''channels''). rowid v = c} = {}" by auto
    from n have u: "snd (update_channel c name url post_times forbidden_words d) = d"
      "int64 c \<Longrightarrow> fst (update_channel c name url post_times forbidden_words d) = Inr PyNone"
      by (simp_all add: update_channel_eq cong: map_cong)
    from n have "snd (delete_channel c d) = d" "int64 c \<Longrightarrow> fst (delete_channel c d) = Inr PyNone"
      unfolding delete_channel_eq e by (simp_all add: filter_id_conv)
    with u show ?thesis by simp
  qed
  have so: "snd (update_source s channel_id source_url parse_media words d) = d \<and>
      snd (delete_source s d) = d \<and>
      (int64 s \<longrightarrow>
         fst (delete_source s d) = Inr PyNone \<and>
         (int64 channel_id \<longrightarrow>
            fst (update_source s channel_id source_url parse_media words d) = Inr PyNone))"
    if "s \<notin> set (ids d ''sources'')" for s d
  proof -
    from that have n: "\<forall>r\<in>set (rows d ''sources''). rowid r \<noteq> s" by (simp add: absent_iff)
    then have e: "{v \<in> set (rows d ''sources''). rowid v = s} = {}" by auto
    from n have u: "snd (update_source s channel_id source_url parse_media words d) = d"
      "int64 s \<Longrightarrow> int64 channel_id \<Longrightarrow>
         fst (update_source s channel_id source_url parse_media words d) = Inr PyNone"
      by (simp_all add: update_source_eq cong: map_cong)
    from n have "snd (delete_source s d) = d" "int64 s \<Longrightarrow> fst (delete_source s d) = Inr PyNone"
      unfolding delete_source_eq e by (simp_all add: filter_id_conv)
    with u show ?thesis by simp
  qed
  have si: "snd (update_site t source_id site_url site_type d) = d \<and>
      snd (delete_site t d) = d \<and>
      (int64 t \<longrightarrow>
         fst (delete_site t d) = Inr PyNone \<and>
         (int64 source_id \<longrightarrow>
            fst (update_site t source_id site_url site_type d) = Inr PyNone))"
    if "t \<notin> set (ids d ''sites'')" for t d
  proof -
    from that have n: "\<forall>r\<in>set (rows d ''sites''). rowid r \<noteq> t" by (simp add: absent_iff)
    from n have u: "snd (update_site t source_id site_url site_type d) = d"
      "int64 t \<Longrightarrow> int64 source_id \<Longrightarrow>
         fst (update_site t source_id site_url site_type d) = Inr PyNone"
      by (simp_all add: update_site_eq cong: map_cong)
    from n have "snd (delete_site t d) = d" "int64 t \<Longrightarrow> fst (delete_site t d) = Inr PyNone"
      by (simp_all add: delete_site_eq filter_id_conv)
    with u show ?thesis by simp
  qed
  have twice_ch: "delete_channel cid (snd (delete_channel cid db))
      = (Inr PyNone, snd (delete_channel cid db))" if r: "int64 cid"
  proof -
    from r have "cid \<notin> set (ids (snd (delete_channel cid db)) ''channels'')"
      by (auto simp add: delete_channel_eq ids_def)
    from ch [OF this] r show ?thesis by (simp add: prod_eq_iff)
  qed
  have twice_so: "delete_source sid (snd (delete_source sid db))
      = (Inr PyNone, snd (delete_source sid db))" if r: "int64 sid"
  proof -
    from r have "sid \<notin> set (ids (snd (delete_source sid db)) ''sources'')"
      by (auto simp add: delete_source_eq ids_def)
    from so [OF this] r show ?thesis by (simp add: prod_eq_iff)
  qed
  have twice_si: "delete_site tid (snd (delete_site tid db))
      = (Inr PyNone, snd (delete_site tid db))" if r: "int64 tid"
  proof -
    from r have "tid \<notin> set (ids (snd (delete_site tid db)) ''sites'')"
      by (auto simp add: delete_site_eq ids_def)
    from si [OF this] r show ?thesis by (simp add: prod_eq_iff)
  qed
  from ch [of cid db] so [of sid db] si [of tid db] twice_ch twice_so twice_si
  show ?thesis by blast
qed

text \<open>
  The theorem on the scenario store, whose three rows have the identity 1: \<open>update\<close> and
  \<open>delete\<close> of 999 change nothing and return \<^verbatim>\<open>None\<close>, and so does deleting row 1 a
  second time.
\<close>

theorem C2_missing_id_is_silent_witness:
  "999 \<notin> set (ids one_of_each ''channels'') \<and> int64 999 \<and>
   update_channel 999 ''n'' ''u'' [] [] one_of_each = (Inr PyNone, one_of_each) \<and>
   delete_channel 999 one_of_each = (Inr PyNone, one_of_each) \<and>
   999 \<notin> set (ids one_of_each ''sources'') \<and> int64 1 \<and>
   update_source 999 1 ''s'' True [] one_of_each = (Inr PyNone, one_of_each) \<and>
   delete_source 999 one_of_each = (Inr PyNone, one_of_each) \<and>
   999 \<notin> set (ids one_of_each ''sites'') \<and>
   update_site 999 1 ''t'' ''AUTO'' one_of_each = (Inr PyNone, one_of_each) \<and>
   delete_site 999 one_of_each = (Inr PyNone, one_of_each) \<and>
   delete_channel 999 (snd (delete_channel 999 one_of_each))
     = (Inr PyNone, snd (delete_channel 999 one_of_each)) \<and>
   delete_source 999 (snd (delete_source 999 one_of_each))
     = (Inr PyNone, snd (delete_source 999 one_of_each)) \<and>
   delete_site 999 (snd (delete_site 999 one_of_each))
     = (Inr PyNone, snd (delete_site 999 one_of_each))"
proof -
  have r: "int64 999" by (simp add: int64_def)
  from r C2_missing_id_is_silent [of 999 one_of_each "''n''" "''u''" "[]" "[]" 999 1 "''s''" True "[]"
      999 1 "''t''" "''AUTO''"]
  show ?thesis by (simp add: one_of_each_ids prod_eq_iff)
qed

text \<open>
  Against the claim as it is written: on the scenario store \<open>update\<close> and \<open>delete\<close> of
  999 return \<^verbatim>\<open>None\<close> instead of raising, and so does the second of two deletes of
  channel 1.
\<close>

theorem C2_not_found_counterexample:
  "fst (update_channel 999 ''n'' ''u'' [] [] one_of_each) = Inr PyNone \<and>
   fst (delete_channel 999 one_of_each) = Inr PyNone \<and>
   fst (delete_channel 1 one_of_each) = Inr PyNone \<and>
   fst (delete_channel 1 (snd (delete_channel 1 one_of_each))) = Inr PyNone"
  by (simp add: update_channel_eq delete_channel_eq one_of_each_rows int64_def)

section \<open>The layout of the sites table\<close>

text \<open>
  Claim C9, as the code has it. The claim names the foreign-key column of \<open>sites\<close>
  \<open>parent_id\<close>; the table the program creates has no such column. Its columns are \<open>id\<close>,
  \<open>channel_id\<close>, \<open>site_url\<close> and \<open>site_type\<close>, the same names the front end shows as
  headings; \<open>id\<close> and \<open>channel_id\<close> are declared INTEGER, \<open>site_url\<close> and \<open>site_type\<close>
  TEXT; \<open>id\<close> is the \<^verbatim>\<open>AUTOINCREMENT\<close> primary key; \<open>channel_id\<close>, \<open>site_url\<close> and
  \<open>site_type\<close> are \<^verbatim>\<open>NOT NULL\<close>; \<open>site_type\<close> is
  checked against AUTO, RENT, BUY and FREE, and the one foreign key of the table, which is
  also the one foreign key that points at \<open>sources\<close>, is \<open>channel_id\<close> referencing
  \<open>sources(id)\<close> with \<^verbatim>\<open>ON DELETE CASCADE\<close>.
\<close>

theorem C9_sites_layout:
  "map_option column_names (find_table create_tables ''sites'')
     = Some [''id'', ''channel_id'', ''site_url'', ''site_type''] \<and>
   map_option column_names (find_table create_tables ''sites'') = columns_map ''sites'' \<and>
   map_option (map col_constraints \<circ> tbl_columns) (find_table create_tables ''sites'')
     = Some [[PRIMARY_KEY_AUTOINCREMENT], [NOT_NULL], [NOT_NULL],
             [CHECK_IN [''AUTO'', ''RENT'', ''BUY'', ''FREE''], NOT_NULL]] \<and>
   map_option (map col_type \<circ> tbl_columns) (find_table create_tables ''sites'')
     = Some [INTEGER, INTEGER, TEXT, TEXT] \<and>
   map_option tbl_foreign_keys (find_table create_tables ''sites'')
     = Some [FOREIGN_KEY ''channel_id'' ''sources'' ''id'' CASCADE] \<and>
   map snd (references create_tables ''sources'')
     = [FOREIGN_KEY ''channel_id'' ''sources'' ''id'' CASCADE]"
  by (simp add: find_table_def create_tables_def column_names_def columns_map_def references_def)

text \<open>
  Against the claim as it is written: no table has a column \<open>parent_id\<close>, and an insert
  into \<open>sites\<close> that names one is refused by SQLite.
\<close>

theorem C9_parent_id_counterexample:
  "''parent_id'' \<notin> set (concat (map column_names create_tables)) \<and>
   cursor_execute foreign_keys create_tables
     (INSERT_INTO ''sites'' [''parent_id'', ''site_url'', ''site_type''])
     [Integer 1, Text ''u'', Text ''AUTO''] Database_init
   = Inl (OperationalError ''no such column'')"
  by (simp add: engine_defs)

section \<open>What create returns\<close>

text \<open>
  Claim C3, as the code has it. The claim has \<open>create\<close> return the identity of the new
  row. No \<open>create\<close> method has a \<^verbatim>\<open>return\<close> statement and \<^verbatim>\<open>_execute\<close> never reads the
  rowid of the cursor: for each of the three kinds a create that succeeds returns
  \<^verbatim>\<open>None\<close>. The row it inserts is the last of its table and carries the next rowid of the
  table, which a caller can only learn from \<open>list\<close>.
\<close>

theorem C3_create_returns_None:
  "(fst (create_channel name url post_times forbidden_words db) = Inr v1 \<longrightarrow>
      v1 = PyNone \<and>
      ids (snd (create_channel name url post_times forbidden_words db)) ''channels''
        = ids db ''channels'' @ [next_rowid db ''channels'']) \<and>
   (fst (create_source channel_id source_url parse_media words db) = Inr v2 \<longrightarrow>
      v2 = PyNone \<and>
      ids (snd (create_source channel_id source_url parse_media words db)) ''sources''
        = ids db ''sources'' @ [next_rowid db ''sources'']) \<and>
   (fst (create_site source_id site_url site_type db) = Inr v3 \<longrightarrow>
      v3 = PyNone \<and>
      ids (snd (create_site source_id site_url site_type db)) ''sites''
        = ids db ''sites'' @ [next_rowid db ''sites''])"
  by (auto simp add: create_channel_eq create_source_eq create_site_eq ids_def split: if_splits)

text \<open>The theorem on the scenario store: the three creates succeed and each new row is number 2.\<close>

theorem C3_create_returns_None_witness:
  "fst (create_channel ''sport'' ''https://y'' [] [] one_of_each) = Inr PyNone \<and>
   ids (snd (create_channel ''sport'' ''https://y'' [] [] one_of_each)) ''channels'' = [1, 2] \<and>
   fst (create_source 1 ''https://s2'' False [] one_of_each) = Inr PyNone \<and>
   ids (snd (create_source 1 ''https://s2'' False [] one_of_each)) ''sources'' = [1, 2] \<and>
   fst (create_site 1 ''https://t2'' ''RENT'' one_of_each) = Inr PyNone \<and>
   ids (snd (create_site 1 ''https://t2'' ''RENT'' one_of_each)) ''sites'' = [1, 2]"
  using C3_create_returns_None [of "''sport''" "''https://y''" "[]" "[]" one_of_each PyNone
      1 "''https://s2''" False "[]" PyNone 1 "''https://t2''" "''RENT''" PyNone]
  by (simp add: one_of_each_creates one_of_each_ids one_of_each_next)

text \<open>
  Against the claim as it is written: the first channel of an empty store gets the
  identity 1, as \<open>list\<close> shows afterwards, and the call that created it returned
  \<^verbatim>\<open>None\<close>, not 1.
\<close>

theorem C3_returned_id_counterexample:
  "fst (create_channel ''news'' ''https://x'' [] [] Database_init) = Inr PyNone \<and>
   fst (create_channel ''news'' ''https://x'' [] [] Database_init) \<noteq> Inr (PyInt 1) \<and>
   fst (list_channels (snd (create_channel ''news'' ''https://x'' [] [] Database_init)))
     = Inr (PyList [PyTuple [PyInt 1, PyStr ''news'', PyStr ''https://x'', PyStr ''[]'', PyStr ''[]'']])"
  by (simp add: create_channel_eq list_channels_eq Database_init_def next_rowid_def dumps_Nil)

section \<open>What list returns\<close>

text \<open>
  Claim C4, as the code has it. The claim has \<open>list\<close> decode the structured fields
  inside the store. The \<open>list\<close> methods return the rows of \<^verbatim>\<open>SELECT *\<close> untouched: every
  stored row, in storage order, as the tuple of its columns, where a list field is the JSON
  text that \<open>create\<close> wrote, \<open>parse_media\<close> is the integer 0 or 1 and \<open>site_type\<close> is its
  text. Turning the text back into a list is left to the caller (\<^verbatim>\<open>TableFrame.refresh\<close>
  does it with \<^verbatim>\<open>json.loads\<close>). For each kind: after a create that succeeds, \<open>list\<close>
  returns the tuples of the rows that were there, followed by the tuple of the values as
  they were bound to the statement.
\<close>

theorem C4_list_returns_stored_cells:
  "(fst (create_channel name url post_times forbidden_words db) = Inr v1 \<longrightarrow>
      fst (list_channels (snd (create_channel name url post_times forbidden_words db)))
        = Inr (PyList (map (tuple_of [''name'', ''url'', ''post_times'', ''forbidden_words''])
                          (rows db ''channels'')
                 @ [PyTuple [PyInt (next_rowid db ''channels''), PyStr name, PyStr url,
                      PyStr (json_dumps post_times), PyStr (json_dumps forbidden_words)]]))) \<and>
   (fst (create_source channel_id source_url parse_media words db) = Inr v2 \<longrightarrow>
      fst (list_sources (snd (create_source channel_id source_url parse_media words db)))
        = Inr (PyList (map (tuple_of [''channel_id'', ''source_url'', ''parse_media'', ''forbidden_words''])
                          (rows db ''sources'')
                 @ [PyTuple [PyInt (next_rowid db ''sources''), PyInt channel_id, PyStr source_url,
                      PyInt (of_bool parse_media), PyStr (json_dumps words)]]))) \<and>
   (fst (create_site source_id site_url site_type db) = Inr v3 \<longrightarrow>
      fst (list_sites (snd (create_site source_id site_url site_type db)))
        = Inr (PyList (map (tuple_of [''channel_id'', ''site_url'', ''site_type'']) (rows db ''sites'')
                 @ [PyTuple [PyInt (next_rowid db ''sites''), PyInt source_id, PyStr site_url,
                      PyStr site_type]]))) \<and>
   fst (list_channels db)
     = Inr (PyList (map (tuple_of [''name'', ''url'', ''post_times'', ''forbidden_words''])
              (rows db ''channels''))) \<and>
   fst (list_sources db)
     = Inr (PyList (map (tuple_of [''channel_id'', ''source_url'', ''parse_media'', ''forbidden_words''])
              (rows db ''sources''))) \<and>
   fst (list_sites db)
     = Inr (PyList (map (tuple_of [''channel_id'', ''site_url'', ''site_type'']) (rows db ''sites'')))"
  by (auto simp add: create_channel_eq create_source_eq create_site_eq list_tuples
      tuple_of_def split: if_splits)

text \<open>The theorem on the scenario store, for a second channel, source and site.\<close>

theorem C4_list_returns_stored_cells_witness:
  "fst (create_channel ''sport'' ''https://y'' [] [] one_of_each) = Inr PyNone \<and>
   fst (list_channels (snd (create_channel ''sport'' ''https://y'' [] [] one_of_each)))
     = Inr (PyList (map (tuple_of [''name'', ''url'', ''post_times'', ''forbidden_words''])
                      (rows one_of_each ''channels'')
              @ [PyTuple [PyInt 2, PyStr ''sport'', PyStr ''https://y'', PyStr ''[]'', PyStr ''[]'']])) \<and>
   fst (create_source 1 ''https://s2'' False [] one_of_each) = Inr PyNone \<and>
   fst (list_sources (snd (create_source 1 ''https://s2'' False [] one_of_each)))
     = Inr (PyList (map (tuple_of [''channel_id'', ''source_url'', ''parse_media'', ''forbidden_words''])
                      (rows one_of_each ''sources'')
              @ [PyTuple [PyInt 2, PyInt 1, PyStr ''https://s2'', PyInt 0, PyStr ''[]'']])) \<and>
   fst (create_site 1 ''https://t2'' ''RENT'' one_of_each) = Inr PyNone \<and>
   fst (list_sites (snd (create_site 1 ''https://t2'' ''RENT'' one_of_each)))
     = Inr (PyList (map (tuple_of [''channel_id'', ''site_url'', ''site_type''])
                      (rows one_of_each ''sites'')
              @ [PyTuple [PyInt 2, PyInt 1, PyStr ''https://t2'', PyStr ''RENT'']]))"
  using C4_list_returns_stored_cells [of "''sport''" "''https://y''" "[]" "[]" one_of_each PyNone
      1 "''https://s2''" False "[]" PyNone 1 "''https://t2''" "''RENT''" PyNone]
  by (simp add: one_of_each_creates one_of_each_next dumps_Nil)

text \<open>
  Against the claim as it is written: in the scenario store \<open>list_channels\<close> gives
  \<open>post_times\<close> and \<open>forbidden_words\<close> as the texts of two JSON arrays, not as the lists
  the claim promises, and \<open>list_sources\<close> gives \<open>parse_media\<close> as the integer 1.
\<close>

theorem C4_undecoded_counterexample:
  "fst (list_channels one_of_each)
     = Inr (PyList [PyTuple [PyInt 1, PyStr ''news'', PyStr ''https://x'',
         PyStr (CHR ''['' # CHR 0x22 # ''09:00'' @ CHR 0x22 # '', '' @ CHR 0x22 # ''18:00''
                  @ [CHR 0x22, CHR '']'']),
         PyStr (CHR ''['' # CHR 0x22 # ''spam'' @ [CHR 0x22, CHR '']''])]]) \<and>
   fst (list_sources one_of_each)
     = Inr (PyList [PyTuple [PyInt 1, PyInt 1, PyStr ''https://s'', PyInt 1, PyStr ''[]'']]) \<and>
   fst (list_channels one_of_each)
     \<noteq> Inr (PyList [PyTuple [PyInt 1, PyStr ''news'', PyStr ''https://x'',
         PyList [PyStr ''09:00'', PyStr ''18:00''], PyList [PyStr ''spam'']]])"
  by (simp add: list_channels_eq list_sources_eq one_of_each_rows dumps_times dumps_spam dumps_Nil)

section \<open>Deleting a channel\<close>

text \<open>
  Claim C1. In every store in which the channel \<open>cid\<close> exists, \<open>delete_channel cid\<close>
  succeeds and one call removes the channel, every source whose \<open>channel_id\<close> is \<open>cid\<close>
  and every site whose parent column holds the identity of one of those sources; nothing
  else leaves the two child tables. \<open>list_sources\<close> and \<open>list_sites\<close> afterwards return
  exactly the tuples of the rows that are left. The identity of a row that SQLite stores is
  a 64-bit integer; the stores of the model hold integers of any size, so the theorem says
  of \<open>cid\<close> what is true of the identity of every channel that exists.
\<close>

theorem C1_delete_channel_cascades:
  assumes "cid \<in> set (ids db ''channels'')" and "int64 cid"
  shows "fst (delete_channel cid db) = Inr PyNone \<and>
    cid \<notin> set (ids (snd (delete_channel cid db)) ''channels'') \<and>
    rows (snd (delete_channel cid db)) ''sources''
      = filter (\<lambda>s. cells s ''channel_id'' \<noteq> Integer cid) (rows db ''sources'') \<and>
    rows (snd (delete_channel cid db)) ''sites''
      = filter (\<lambda>t. \<forall>s\<in>set (rows db ''sources'').
                 cells s ''channel_id'' = Integer cid \<longrightarrow> cells t ''channel_id'' \<noteq> Integer (rowid s))
          (rows db ''sites'') \<and>
    fst (list_sources (snd (delete_channel cid db)))
      = Inr (PyList (map (tuple_of [''channel_id'', ''source_url'', ''parse_media'', ''forbidden_words''])
          (filter (\<lambda>s. cells s ''channel_id'' \<noteq> Integer cid) (rows db ''sources'')))) \<and>
    fst (list_sites (snd (delete_channel cid db)))
      = Inr (PyList (map (tuple_of [''channel_id'', ''site_url'', ''site_type''])
          (filter (\<lambda>t. \<forall>s\<in>set (rows db ''sources'').
                 cells s ''channel_id'' = Integer cid \<longrightarrow> cells t ''channel_id'' \<noteq> Integer (rowid s))
          (rows db ''sites''))))"
  by (auto simp add: delete_channel_present [OF assms] list_tuples ids_def)

text \<open>The theorem on the scenario store: deleting channel 1 empties all three tables.\<close>

theorem C1_delete_channel_cascades_witness:
  "1 \<in> set (ids one_of_each ''channels'') \<and> int64 1 \<and>
   fst (delete_channel 1 one_of_each) = Inr PyNone \<and>
   1 \<notin> set (ids (snd (delete_channel 1 one_of_each)) ''channels'') \<and>
   rows (snd (delete_channel 1 one_of_each)) ''sources'' = [] \<and>
   rows (snd (delete_channel 1 one_of_each)) ''sites'' = [] \<and>
   fst (list_sources (snd (delete_channel 1 one_of_each))) = Inr (PyList []) \<and>
   fst (list_sites (snd (delete_channel 1 one_of_each))) = Inr (PyList [])"
  using C1_delete_channel_cascades [of 1 one_of_each]
  by (simp add: one_of_each_ids one_of_each_rows)

section \<open>Unique names and addresses of channels\<close>

text \<open>
  Claim C5. In every store that holds a channel with the address \<open>url\<close> or with the name
  \<open>name\<close>, creating a channel with that address or name fails on the UNIQUE constraint
  (an \<^verbatim>\<open>IntegrityError\<close>, the specification's \<open>UniqueConstraintViolation\<close>), and the store
  stays exactly as it was: the first channel is untouched and no row is added.
\<close>

theorem C5_duplicate_channel_refused:
  assumes "\<exists>r\<in>set (rows db ''channels''). cells r ''url'' = Text url \<or> cells r ''name'' = Text name"
  shows "create_channel name url post_times forbidden_words db = (Inl (IntegrityError Unique), db)"
  using assms by (auto simp add: create_channel_eq)

text \<open>The theorem on the scenario store, for a channel of another name at the same address.\<close>

theorem C5_duplicate_channel_refused_witness:
  "(\<exists>r\<in>set (rows one_of_each ''channels'').
      cells r ''url'' = Text ''https://x'' \<or> cells r ''name'' = Text ''other'') \<and>
   create_channel ''other'' ''https://x'' [] [] one_of_each = (Inl (IntegrityError Unique), one_of_each)"
proof -
  have h: "\<exists>r\<in>set (rows one_of_each ''channels'').
      cells r ''url'' = Text ''https://x'' \<or> cells r ''name'' = Text ''other''"
    by (simp add: one_of_each_rows)
  from h C5_duplicate_channel_refused [OF h] show ?thesis by blast
qed

section \<open>The type of a site\<close>




section \<open>Children and their parents\<close>



















section \<open>Identities are not reused\<close>

text \<open>
  The sequence of a table never goes down, and a create that succeeds puts the next rowid
  at the end of its table and into the sequence.
\<close>

lemma next_rowid_gt_sequence: "sqlite_sequence db t < next_rowid db t"
  by (simp add: next_rowid_def)

lemma next_rowid_gt_ids: "i \<in> set (ids db t) \<Longrightarrow> i < next_rowid db t"
proof -
  assume a: "i \<in> set (ids db t)"
  then have ne: "rows db t \<noteq> []" by (auto simp: ids_def)
  from a have "i \<le> Max (rowid ` set (rows db t))" by (auto simp: ids_def)
  with ne show ?thesis by (simp add: next_rowid_def)
qed

lemma sequence_mono_invoke: "sqlite_sequence db t \<le> sqlite_sequence (snd (invoke c db)) t"
proof (cases c)
  case (Create_channel name url pt fw)
  then show ?thesis using next_rowid_gt_sequence [of db "''channels''"]
    by (simp add: create_channel_eq)
next
  case (Create_source cid url pm fw)
  then show ?thesis using next_rowid_gt_sequence [of db "''sources''"]
    by (simp add: create_source_eq)
next
  case (Create_site sid url ty)
  then show ?thesis using next_rowid_gt_sequence [of db "''sites''"]
    by (simp add: create_site_eq)
qed (simp_all add: list_tuples update_channel_eq update_source_eq update_site_eq
      delete_channel_eq delete_source_eq delete_site_eq)

lemma sequence_mono_run: "sqlite_sequence db t \<le> sqlite_sequence (run calls db) t"
proof (induction calls arbitrary: db)
  case Nil
  show ?case by simp
next
  case (Cons c calls)
  have "sqlite_sequence db t \<le> sqlite_sequence (snd (invoke c db)) t"
    by (rule sequence_mono_invoke)
  also have "\<dots> \<le> sqlite_sequence (run calls (snd (invoke c db))) t"
    by (rule Cons.IH)
  finally show ?case by simp
qed

lemma create_assigns:
  assumes "creates c = Some t" and "fst (invoke c db) = Inr v"
  shows "ids (snd (invoke c db)) t = ids db t @ [next_rowid db t] \<and>
         sqlite_sequence (snd (invoke c db)) t = next_rowid db t"
  using assms
  by (cases c) (auto simp add: create_channel_eq create_source_eq create_site_eq ids_def
      split: if_splits)

lemma run_example:
  "ids (snd (create_channel ''a'' ''u'' [] [] Database_init)) ''channels'' = [1]"
  "ids (run [Delete_channel 1] (snd (create_channel ''a'' ''u'' [] [] Database_init))) ''channels'' = []"
  "fst (create_channel ''b'' ''w'' [] [] (run [Delete_channel 1] (snd (create_channel ''a'' ''u'' [] [] Database_init)))) = Inr PyNone"
  "ids (snd (create_channel ''b'' ''w'' [] [] (run [Delete_channel 1] (snd (create_channel ''a'' ''u'' [] [] Database_init))))) ''channels'' = [2]"
  by (simp_all add: create_channel_eq delete_channel_eq Database_init_def next_rowid_def ids_def)

text \<open>
  Claim C10. Take any store, any create \<open>c1\<close> that succeeds in it, any calls after that
  (creates, updates, deletes and lists of any kind, failing or not), and any later create
  \<open>c2\<close> into the same table that succeeds. The row of \<open>c2\<close> gets an identity strictly
  greater than the one the row of \<open>c1\<close> got, whether or not that row still exists, and
  each new identity is greater than every identity in the table at the time.
\<close>

theorem C10_identities_increase:
  assumes "creates c1 = Some t" and "fst (invoke c1 db) = Inr v1"
    and "creates c2 = Some t"
    and "fst (invoke c2 (run calls (snd (invoke c1 db)))) = Inr v2"
  shows "last (ids (snd (invoke c1 db)) t)
           < last (ids (snd (invoke c2 (run calls (snd (invoke c1 db))))) t) \<and>
         (\<forall>i\<in>set (ids db t). i < last (ids (snd (invoke c1 db)) t)) \<and>
         (\<forall>i\<in>set (ids (run calls (snd (invoke c1 db))) t).
             i < last (ids (snd (invoke c2 (run calls (snd (invoke c1 db))))) t))"
proof -
  let ?db1 = "snd (invoke c1 db)"
  let ?db2 = "run calls ?db1"
  from create_assigns [OF assms(1,2)]
  have l1: "last (ids ?db1 t) = next_rowid db t" and s1: "sqlite_sequence ?db1 t = next_rowid db t"
    by simp_all
  from create_assigns [OF assms(3,4)]
  have l2: "last (ids (snd (invoke c2 ?db2)) t) = next_rowid ?db2 t" by simp
  have "next_rowid db t \<le> sqlite_sequence ?db2 t"
    using sequence_mono_run [of ?db1 t calls] s1 by simp
  also have "\<dots> < next_rowid ?db2 t" by (rule next_rowid_gt_sequence)
  finally have "last (ids ?db1 t) < last (ids (snd (invoke c2 ?db2)) t)"
    by (simp add: l1 l2)
  then show ?thesis
    by (auto simp add: l1 l2 next_rowid_gt_ids)
qed

text \<open>
  The theorem on the empty store: a channel is created (identity 1) and deleted, and the
  next channel gets the identity 2.
\<close>

theorem C10_identities_increase_witness:
  "creates (Create_channel ''a'' ''u'' [] []) = Some ''channels'' \<and>
   fst (invoke (Create_channel ''a'' ''u'' [] []) Database_init) = Inr PyNone \<and>
   creates (Create_channel ''b'' ''w'' [] []) = Some ''channels'' \<and>
   fst (invoke (Create_channel ''b'' ''w'' [] [])
          (run [Delete_channel 1] (snd (invoke (Create_channel ''a'' ''u'' [] []) Database_init))))
     = Inr PyNone \<and>
   ids (snd (invoke (Create_channel ''a'' ''u'' [] []) Database_init)) ''channels'' = [1] \<and>
   ids (run [Delete_channel 1] (snd (invoke (Create_channel ''a'' ''u'' [] []) Database_init)))
     ''channels'' = [] \<and>
   ids (snd (invoke (Create_channel ''b'' ''w'' [] [])
          (run [Delete_channel 1] (snd (invoke (Create_channel ''a'' ''u'' [] []) Database_init)))))
     ''channels'' = [2] \<and>
   last (ids (snd (invoke (Create_channel ''a'' ''u'' [] []) Database_init)) ''channels'')
     < last (ids (snd (invoke (Create_channel ''b'' ''w'' [] [])
          (run [Delete_channel 1] (snd (invoke (Create_channel ''a'' ''u'' [] []) Database_init)))))
        ''channels'')"
proof -
  have h1: "creates (Create_channel ''a'' ''u'' [] []) = Some ''channels''" by simp
  have h2: "fst (invoke (Create_channel ''a'' ''u'' [] []) Database_init) = Inr PyNone"
    by (simp add: create_channel_eq Database_init_def)
  have h3: "creates (Create_channel ''b'' ''w'' [] []) = Some ''channels''" by simp
  have h4: "fst (invoke (Create_channel ''b'' ''w'' [] [])
          (run [Delete_channel 1] (snd (invoke (Create_channel ''a'' ''u'' [] []) Database_init))))
     = Inr PyNone"
    using run_example(3) by simp
  from C10_identities_increase [OF h1 h2 h3 h4] h1 h2 h3 h4 run_example show ?thesis
    by simp
qed

section \<open>Writing a list of strings and reading it back\<close>

text \<open>
  Four hexadecimal digits are read back as the number they were written for, an escape
  is read back as the code point it was written for, and so on up to whole lists. The one
  place where reading does not undo writing is a high surrogate followed by a low one:
  both are written as \<^verbatim>\<open>\u\<close> escapes, and the two escapes in a row are read as a single
  code point beyond the basic plane.
\<close>

lemma hex4_arith:
  assumes "n < 65536"
  shows "((n div 4096 mod 16 * 16 + n div 256 mod 16) * 16 + n div 16 mod 16) * 16 + n mod 16 = (n::nat)"
proof -
  have a: "n mod 256 = 16 * (n div 16 mod 16) + n mod 16"
    using mod_mult2_eq [of n 16 16] by simp
  have b: "n mod 4096 = 256 * (n div 256 mod 16) + n mod 256"
    using mod_mult2_eq [of n 256 16] by simp
  have c: "n mod 65536 = 4096 * (n div 4096 mod 16) + n mod 4096"
    using mod_mult2_eq [of n 4096 16] by simp
  from assms have "n mod 65536 = n" by simp
  with a b c show ?thesis by (simp add: algebra_simps)
qed


lemma hexval_hexdigit: "d < 16 \<Longrightarrow> hexval (hexdigit d) = Some d"
proof -
  assume d: "d < 16"
  have "list_all (\<lambda>d. hexval (hexdigit d) = Some d) [0..<16]"
    by code_simp
  with d show ?thesis by (simp add: list_all_iff)
qed

lemma hex4_digits:
  assumes "n < 65536"
  shows "hex4 (hexdigit (n div 4096 mod 16) # hexdigit (n div 256 mod 16) #
               hexdigit (n div 16 mod 16) # hexdigit (n mod 16) # rest) = Some n"
proof -
  have "hex4 (hexdigit (n div 4096 mod 16) # hexdigit (n div 256 mod 16) #
               hexdigit (n div 16 mod 16) # hexdigit (n mod 16) # rest)
        = Some (((n div 4096 mod 16 * 16 + n div 256 mod 16) * 16 + n div 16 mod 16) * 16 + n mod 16)"
    by (simp add: hexval_hexdigit)
  then show ?thesis unfolding hex4_arith [OF assms] .
qed


lemma unescape_u_escape:
  assumes n: "n < 65536"
    and np: "is_high_surrogate n \<Longrightarrow> take 2 rest = [CHR 0x5C, CHR ''u''] \<Longrightarrow>
           \<exists>c2. hex4 (drop 2 rest) = Some c2 \<and> \<not> is_low_surrogate c2"
  shows "unescape (tl (u_escape n) @ rest) = Some (n, 5)"
proof -
  note h = hex4_digits [OF n, of rest]
  from np show ?thesis
    by (auto simp add: unescape_def u_escape_def h simp del: hex4.simps)
qed

lemma unescape_pair:
  assumes "0x10000 \<le> c" and "c < 0x110000"
  shows "unescape (tl (u_escape (0xD800 + (c - 0x10000) div 0x400 mod 0x400)
                         @ u_escape (0xDC00 + (c - 0x10000) mod 0x400)) @ rest) = Some (c, 11)"
proof -
  define hi where "hi = 0xD800 + (c - 0x10000) div 0x400 mod 0x400"
  define lo where "lo = 0xDC00 + (c - 0x10000) mod 0x400"
  have hi: "hi < 65536" "is_high_surrogate hi" and lo: "lo < 65536" "is_low_surrogate lo"
    by (simp_all add: is_high_surrogate_def is_low_surrogate_def hi_def lo_def)
  have small: "(c - 0x10000) div 0x400 < 0x400" using assms by simp
  have joined: "0x10000 + ((hi - 0xD800) * 0x400 + (lo - 0xDC00)) = c"
    using assms small by (simp add: hi_def lo_def)
  note h1 = hex4_digits [OF hi(1)] and h2 = hex4_digits [OF lo(1)]
  have "unescape (tl (u_escape hi @ u_escape lo) @ rest) = Some (c, 11)"
    using hi(2) lo(2) joined
    by (simp add: unescape_def u_escape_def h1 h2 del: hex4.simps)
  then show ?thesis by (simp only: hi_def lo_def)
qed


lemma scanstring_backslash:
  "unescape es = Some (n, k) \<Longrightarrow>
   scanstring (CHR 0x5C # es) = map_option (\<lambda>(s, m). (n # s, 1 + k + m)) (scanstring (drop k es))"
  by simp

lemma length_u_escape: "length (u_escape n) = 6" and hd_u_escape: "u_escape n = CHR 0x5C # tl (u_escape n)"
  by (simp_all add: u_escape_def)

lemma hd_u_escape_append: "u_escape n @ X = CHR 0x5C # tl (u_escape n @ X)"
  by (simp add: u_escape_def)

lemma char_of_eq_of_char: "n < 256 \<Longrightarrow> char_of (n::nat) = c \<longleftrightarrow> n = of_char c"
  by (metis char_of_char mod_less of_char_of)

lemma scanstring_escape_char:
  assumes c: "c < 0x110000"
    and np: "is_high_surrogate c \<Longrightarrow> take 2 T = [CHR 0x5C, CHR ''u''] \<Longrightarrow>
           \<exists>c2. hex4 (drop 2 T) = Some c2 \<and> \<not> is_low_surrogate c2"
  shows "scanstring (escape_char c @ T)
           = map_option (\<lambda>(s, m). (c # s, length (escape_char c) + m)) (scanstring T)"
proof -
  consider (short) "c \<in> {0x5C, 0x22, 0x08, 0x0C, 0x0A, 0x0D, 0x09}"
    | (plain) "c \<notin> {0x5C, 0x22, 0x08, 0x0C, 0x0A, 0x0D, 0x09}" "0x20 \<le> c" "c \<le> 0x7E"
    | (bmp) "c \<notin> {0x5C, 0x22, 0x08, 0x0C, 0x0A, 0x0D, 0x09}" "c < 0x20 \<or> 0x7E < c" "c < 0x10000"
    | (pair) "0x10000 \<le> c"
    by fastforce
  then show ?thesis
  proof cases
    case short
    then show ?thesis
      by (auto simp add: escape_char_def unescape_def)
  next
    case plain
    then have "escape_char c = [char_of c]" by (simp add: escape_char_def)
    moreover from plain have "char_of c \<noteq> CHR 0x22" "char_of c \<noteq> CHR 0x5C" "(of_char (char_of c :: char) :: nat) = c"
      by (simp_all add: char_of_eq_of_char)
    ultimately show ?thesis using plain by simp
  next
    case bmp
    then have e: "escape_char c = CHR 0x5C # tl (u_escape c)"
      using hd_u_escape [of c] by (auto simp add: escape_char_def)
    have u: "unescape (tl (u_escape c) @ T) = Some (c, 5)"
      using bmp(3) np by (rule unescape_u_escape)
    show ?thesis
      unfolding e using scanstring_backslash [OF u] length_u_escape [of c]
      by simp
  next
    case pair
    let ?hi = "0xD800 + (c - 0x10000) div 0x400 mod 0x400"
    let ?lo = "0xDC00 + (c - 0x10000) mod 0x400"
    from pair have e: "escape_char c = CHR 0x5C # tl (u_escape ?hi @ u_escape ?lo)"
      using hd_u_escape_append [of ?hi "u_escape ?lo"] by (simp add: escape_char_def)
    have u: "unescape (tl (u_escape ?hi @ u_escape ?lo) @ T) = Some (c, 11)"
      using pair c by (rule unescape_pair)
    have l: "length (tl (u_escape ?hi @ u_escape ?lo)) = 11"
      by (simp add: length_u_escape)
    show ?thesis
      unfolding e using scanstring_backslash [OF u] l
      by simp
  qed
qed


lemma leading_escape:
  assumes c: "c < 0x110000"
    and t: "take 2 (escape_char c @ X) = [CHR 0x5C, CHR ''u'']"
  shows "\<exists>c2. hex4 (drop 2 (escape_char c @ X)) = Some c2 \<and> (is_low_surrogate c2 \<longrightarrow> is_low_surrogate c)"
proof -
  consider (short) "c \<in> {0x5C, 0x22, 0x08, 0x0C, 0x0A, 0x0D, 0x09}"
    | (plain) "c \<notin> {0x5C, 0x22, 0x08, 0x0C, 0x0A, 0x0D, 0x09}" "0x20 \<le> c" "c \<le> 0x7E"
    | (bmp) "c \<notin> {0x5C, 0x22, 0x08, 0x0C, 0x0A, 0x0D, 0x09}" "c < 0x20 \<or> 0x7E < c" "c < 0x10000"
    | (pair) "0x10000 \<le> c"
    by fastforce
  then show ?thesis
  proof cases
    case short
    with t show ?thesis by (auto simp add: escape_char_def)
  next
    case plain
    then have "escape_char c = [char_of c]" "char_of c \<noteq> CHR 0x5C"
      by (simp_all add: escape_char_def char_of_eq_of_char)
    with t show ?thesis by simp
  next
    case bmp
    then have "escape_char c = u_escape c" by (auto simp add: escape_char_def)
    then have "hex4 (drop 2 (escape_char c @ X)) = Some c"
      using hex4_digits [OF bmp(3)] by (simp add: u_escape_def del: hex4.simps)
    then show ?thesis by simp
  next
    case pair
    define hi where "hi = 0xD800 + (c - 0x10000) div 0x400 mod 0x400"
    have hi: "hi < 65536" "\<not> is_low_surrogate hi"
      by (simp_all add: is_low_surrogate_def hi_def)
    from pair have "escape_char c = u_escape hi @ u_escape (0xDC00 + (c - 0x10000) mod 0x400)"
      by (simp add: escape_char_def hi_def)
    then have "hex4 (drop 2 (escape_char c @ X)) = Some hi"
      using hex4_digits [OF hi(1)] by (simp add: u_escape_def del: hex4.simps)
    with hi(2) show ?thesis by simp
  qed
qed

lemma scanstring_encoded:
  assumes "code_points s" and "\<not> surrogate_pair_in s"
  shows "scanstring (concat (map escape_char s) @ CHR 0x22 # rest)
           = Some (s, length (concat (map escape_char s)) + 1)"
  using assms
proof (induction s)
  case Nil
  show ?case by simp
next
  case (Cons c s)
  let ?T = "concat (map escape_char s) @ CHR 0x22 # rest"
  from Cons.prems have c: "c < 0x110000" and cs: "code_points s"
    by (simp_all add: code_points_def)
  from Cons.prems(2) have ns: "\<not> surrogate_pair_in s"
    by (cases s) simp_all
  have np: "\<exists>c2. hex4 (drop 2 ?T) = Some c2 \<and> \<not> is_low_surrogate c2"
    if h: "is_high_surrogate c" and t: "take 2 ?T = [CHR 0x5C, CHR ''u'']"
  proof (cases s)
    case Nil
    with t show ?thesis by simp
  next
    case (Cons c' s')
    with cs have c': "c' < 0x110000" by (simp add: code_points_def)
    from Cons Cons.prems(2) h have nl: "\<not> is_low_surrogate c'" by simp
    from t Cons have "take 2 (escape_char c' @ concat (map escape_char s') @ CHR 0x22 # rest)
        = [CHR 0x5C, CHR ''u'']" by simp
    from leading_escape [OF c' this] nl Cons show ?thesis by auto
  qed
  have "scanstring (escape_char c @ ?T)
          = map_option (\<lambda>(s, m). (c # s, length (escape_char c) + m)) (scanstring ?T)"
    using c np by (rule scanstring_escape_char)
  with Cons.IH [OF cs ns] show ?case by simp
qed


lemma skip_whitespace_simps:
  "skip_whitespace [] = []"
  "skip_whitespace (CHR '' '' # s) = skip_whitespace s"
  "skip_whitespace (CHR 0x22 # s) = CHR 0x22 # s"
  "skip_whitespace (CHR '','' # s) = CHR '','' # s"
  "skip_whitespace (CHR ''['' # s) = CHR ''['' # s"
  "skip_whitespace (CHR '']'' # s) = CHR '']'' # s"
  by (simp_all add: skip_whitespace_def)

lemma parse_array_string:
  assumes "code_points x" and "\<not> surrogate_pair_in x"
  shows "parse_array (encode_basestring_ascii x @ rest) =
     (case skip_whitespace rest of
        [] \<Rightarrow> None
      | d # rest' \<Rightarrow>
          if d = CHR '']'' then Some ([x], rest')
          else if d = CHR '','' then
            map_option (\<lambda>(vs, r). (x # vs, r)) (parse_array (skip_whitespace rest'))
          else None)"
  using scanstring_encoded [OF assms, of rest]
  by (simp add: encode_basestring_ascii_def)

lemma join_encoded_Cons:
  "join sep (map encode_basestring_ascii (y # ys)) @ rest
     = CHR 0x22 # tl (join sep (map encode_basestring_ascii (y # ys)) @ rest)"
  by (cases ys) (simp_all add: encode_basestring_ascii_def)

lemma parse_array_encoded:
  assumes "\<forall>s\<in>set l. code_points s \<and> \<not> surrogate_pair_in s" and "l \<noteq> []"
  shows "parse_array (join '', '' (map encode_basestring_ascii l) @ CHR '']'' # rest) = Some (l, rest)"
  using assms
proof (induction l)
  case Nil
  then show ?case by simp
next
  case (Cons x l)
  then have x: "code_points x" "\<not> surrogate_pair_in x" by simp_all
  show ?case
  proof (cases l)
    case Nil
    then show ?thesis
      using parse_array_string [OF x, of "CHR '']'' # rest"]
      by (simp add: skip_whitespace_simps)
  next
    case (Cons y ys)
    define tail where "tail = join '', '' (map encode_basestring_ascii (y # ys)) @ CHR '']'' # rest"
    from Cons Cons.IH Cons.prems have ih: "parse_array tail = Some (y # ys, rest)"
      by (simp add: tail_def)
    obtain Z where "tail = CHR 0x22 # Z"
      unfolding tail_def using join_encoded_Cons [of "'', ''" y ys "CHR '']'' # rest"] by blast
    then have sk: "skip_whitespace tail = tail"
      by (simp add: skip_whitespace_simps)
    have whole: "join '', '' (map encode_basestring_ascii (x # l)) @ CHR '']'' # rest
        = encode_basestring_ascii x @ CHR '','' # CHR '' '' # tail"
      by (simp add: tail_def Cons)
    show ?thesis
      unfolding whole parse_array_string [OF x] by (simp add: skip_whitespace_simps sk ih Cons)
  qed
qed

lemma json_loads_dumps:
  assumes "\<forall>s\<in>set l. code_points s \<and> \<not> surrogate_pair_in s"
  shows "json_loads (json_dumps l) = Some l"
proof (cases l)
  case Nil
  then show ?thesis
    by (simp add: json_loads_def json_dumps_def skip_whitespace_simps)
next
  case (Cons x xs)
  let ?body = "join '', '' (map encode_basestring_ascii (x # xs)) @ '']''"
  have p: "parse_array ?body = Some (x # xs, [])"
    using parse_array_encoded [of "x # xs" "[]"] assms Cons by simp
  obtain Z where z: "?body = CHR 0x22 # Z"
    using join_encoded_Cons [of "'', ''" x xs "'']''"] by blast
  from p have "json_loads (CHR ''['' # ?body) = Some (x # xs)"
    unfolding json_loads_def z by (simp add: skip_whitespace_simps)
  with Cons show ?thesis by (simp add: json_dumps_def)
qed

lemma dumps_pair:
  "json_dumps [[0xD83D, 0xDE00]]
     = CHR ''['' # CHR 0x22 # CHR 0x5C # ''ud83d'' @ CHR 0x5C # ''ude00'' @ [CHR 0x22, CHR '']'']"
  by (simp add: json_dumps_def encode_basestring_ascii_def escape_char_def u_escape_def hexdigit_def)

lemma loads_pair:
  "json_loads (CHR ''['' # CHR 0x22 # CHR 0x5C # ''ud83d'' @ CHR 0x5C # ''ude00'' @ [CHR 0x22, CHR '']''])
     = Some [[0x1F600]]"
  by (simp add: json_loads_def skip_whitespace_def unescape_def hexval_def
      is_high_surrogate_def is_low_surrogate_def)

text \<open>
  Claim C8, as the code has it. The encoding of a list field is \<^verbatim>\<open>json.dumps\<close> and its
  decoding is \<^verbatim>\<open>json.loads(cell or '[]')\<close>. For every list of strings in which no string
  holds a high surrogate directly followed by a low surrogate, decoding the text that
  encoding produced, also after it went through a cell of the store, gives the list back.
  The empty list is encoded as the text \<^verbatim>\<open>[]\<close>, never as NULL, and is decoded to the empty
  list. The claim states the round trip for every list of strings; a string of Python may
  hold the two surrogates as separate code points, and for such a string the round trip
  returns a different string.
\<close>

theorem C8_round_trip:
  assumes "\<forall>s\<in>set l. code_points s \<and> \<not> surrogate_pair_in s"
  shows "json_loads (json_dumps l) = Some l \<and>
         loads_or_empty (to_python (Text (json_dumps l))) = Some l \<and>
         json_dumps [] = ''[]'' \<and>
         loads_or_empty (to_python (Text (json_dumps []))) = Some []"
proof -
  have ne: "json_dumps l \<noteq> []" for l by (simp add: json_dumps_def)
  from json_loads_dumps [OF assms] json_loads_dumps [of "[]"] show ?thesis
    by (simp add: ne) (simp add: json_dumps_def)
qed

text \<open>
  The theorem for a list with a time, a string with a code point beyond the basic plane, a
  quote and an accented letter, a string with two surrogates in the harmless order, and the
  empty string.
\<close>

theorem C8_round_trip_witness:
  "code_points (str ''09:00'') \<and> \<not> surrogate_pair_in (str ''09:00'') \<and>
   code_points [0x1F600, 0xE9, 0x22] \<and> \<not> surrogate_pair_in [0x1F600, 0xE9, 0x22] \<and>
   code_points [0xDE00, 0xD83D] \<and> \<not> surrogate_pair_in [0xDE00, 0xD83D] \<and>
   code_points [] \<and> \<not> surrogate_pair_in [] \<and>
   loads_or_empty (to_python (Text (json_dumps [str ''09:00'', [0x1F600, 0xE9, 0x22], [0xDE00, 0xD83D], []])))
     = Some [str ''09:00'', [0x1F600, 0xE9, 0x22], [0xDE00, 0xD83D], []]"
proof -
  have h: "\<forall>s\<in>set [str ''09:00'', [0x1F600, 0xE9, 0x22], [0xDE00, 0xD83D], []].
      code_points s \<and> \<not> surrogate_pair_in s"
    by (simp add: code_points_def str_def is_high_surrogate_def is_low_surrogate_def)
  from h C8_round_trip [OF h] show ?thesis by simp
qed

text \<open>
  Against the claim as it is written: the string of the two code points D83D and DE00 is
  written as the escape of D83D followed by the escape of DE00, and read back as the
  string of the one code point 1F600.
\<close>

theorem C8_surrogate_pair_counterexample:
  "code_points [0xD83D, 0xDE00] \<and>
   loads_or_empty (to_python (Text (json_dumps [[0xD83D, 0xDE00]]))) = Some [[0x1F600]] \<and>
   loads_or_empty (to_python (Text (json_dumps [[0xD83D, 0xDE00]]))) \<noteq> Some [[0xD83D, 0xDE00]]"
  using loads_pair by (simp add: dumps_pair code_points_def)

end
